theory Spec2Isabelle
  imports Main "HOL-Library.AList" "HOL-Library.Sublist"
begin

section \<open>The backend of the arcade application (apps/backend/src/index.ts)\<close>

text \<open>
  The backend is an Express application: an authentication middleware, three zod schemas and
  one handler per route, over a Prisma client (tables \<open>User\<close> and \<open>Demo\<close>), a JWT library and
  an S3 client. Each handler is embedded as a function from the process environment, the
  state of the outside world (the two tables, the objects sent to storage) and the request
  to the response and the new state. A call of an external library that may throw returns
  a sum, \<open>Inl\<close> carrying the message of the thrown error, so that every \<open>catch\<close> block of the
  source is a branch of the model.
\<close>

subsection \<open>JavaScript values\<close>

text \<open>
  The values that occur in request bodies and response bodies. \<open>JDate t\<close> is a \<open>Date\<close> at
  \<open>t\<close> milliseconds, which \<open>res.json\<close> prints as an ISO-8601 string; the other constructors
  are the JSON values. A property that is \<open>undefined\<close> is an absent key. Strings are lists of
  code units.
\<close>

datatype json =
    JNull
  | JBool bool
  | JNum int
  | JStr string
  | JDate nat
  | JArr "json list"
  | JObj "(string \<times> json) list"

text \<open>\<open>body.k\<close>: the property \<open>k\<close> of a value, \<open>None\<close> for \<open>undefined\<close>.\<close>

definition body_field :: "json \<Rightarrow> string \<Rightarrow> json option" where
  "body_field b k = (case b of JObj kvs \<Rightarrow> map_of kvs k | _ \<Rightarrow> None)"

subsection \<open>Requests, responses, environment\<close>

record auth_user =
  userId :: string

record upload_file =
  originalname :: string
  mimetype :: string
  file_size :: nat
  buffer :: "nat list"

text \<open>
  \<open>AuthRequest\<close>: the Authorization header, the parsed JSON body, the route parameter
  \<open>:id\<close>, and the two optional members \<open>user\<close> and \<open>file\<close> of the interface.
\<close>

record request =
  authorization :: "string option"
  req_body :: json
  params_id :: string
  user :: "auth_user option"
  req_file :: "upload_file option"

record response =
  status :: nat
  body :: json

text \<open>\<open>res.status(st).json(b)\<close>, and \<open>res.json(b)\<close> with the default status 200.\<close>

definition respond :: "nat \<Rightarrow> json \<Rightarrow> response" where
  "respond st b = \<lparr>status = st, body = b\<rparr>"

definition message :: "string \<Rightarrow> json" where
  "message m = JObj [(''message'', JStr m)]"

text \<open>
  What the module takes from outside the file and what differs from one request to the next:
  \<open>jwt.sign({userId: u}, JWT_SECRET)\<close> and \<open>jwt.verify(token, JWT_SECRET)\<close> (the constant
  \<open>JWT_SECRET\<close> comes from \<open>./config\<close>; \<open>Inl\<close> is the error handed to the callback), the
  test of zod's \<open>.email()\<close>, \<open>process.env\<close>, \<open>Date.now()\<close>, and, for the database, the
  identifier and the creation time it gives a new row. The Prisma schema belongs to the
  package \<open>common/db\<close>, so the default of the column \<open>Demo.isPublic\<close> is a parameter too:
  \<open>None\<close> is a required column without default.
\<close>

record env =
  jwt_sign :: "string \<Rightarrow> string"
  jwt_verify :: "string \<Rightarrow> string + auth_user"
  is_email :: "string \<Rightarrow> bool"
  process_env :: "string \<Rightarrow> string option"
  date_now :: nat
  db_new_id :: string
  db_now :: nat
  isPublic_default :: "bool option"

text \<open>\<open>process.env.K || d\<close>: the default also replaces the empty string.\<close>

definition env_or :: "env \<Rightarrow> string \<Rightarrow> string \<Rightarrow> string" where
  "env_or e k d = (case process_env e k of None \<Rightarrow> d | Some v \<Rightarrow> if v = [] then d else v)"

definition R2_BUCKET_NAME :: "env \<Rightarrow> string" where
  "R2_BUCKET_NAME e = env_or e ''CLOUDFLARE_R2_BUCKET_NAME'' []"

definition R2_PUBLIC_URL :: "env \<Rightarrow> string" where
  "R2_PUBLIC_URL e =
     env_or e ''CLOUDFLARE_R2_PUBLIC_URL'' ''https://pub-3f302ea423334407b3183fceb59dece7.r2.dev''"

subsection \<open>The outside world: tables and object storage\<close>

text \<open>
  A table is an association list from the primary key to the row, read through \<open>map_of\<close>.
  The Prisma schema that declares the tables belongs to the package \<open>common/db\<close>.
\<close>

text \<open>
  Modelled from the spec: the table \<open>User\<close> of the Prisma schema. A User has an identifier
  (the key of the table), a unique email, a password stored as it is, a name and a creation
  time.
\<close>

record user_row =
  user_email :: string
  user_password :: string
  user_name :: string
  user_createdAt :: nat

text \<open>
  Modelled from the spec: the table \<open>Demo\<close> of the Prisma schema. A Demo has an identifier
  (the key of the table), title, description, type tag, content, an optional thumbnail and
  an optional url, the public flag, the view counter, the owning user and a creation time.
  The specification gives no width for the view counter; it is an unbounded integer here.
\<close>

record demo_row =
  demo_title :: string
  demo_description :: string
  demo_type :: string
  demo_content :: string
  demo_thumbnail :: "string option"
  demo_url :: "string option"
  demo_isPublic :: bool
  demo_views :: int
  demo_userId :: string
  demo_createdAt :: nat

record put_object =
  Bucket :: string
  Key :: string
  Body :: "nat list"
  ContentType :: string

text \<open>
  \<open>db_faults\<close> and \<open>r2_faults\<close> say how the next calls of the database and of the storage
  client end for reasons outside the program (connection lost, time-out): each call takes
  the head of the list, \<open>Some m\<close> makes it throw an error with message \<open>m\<close>, and a call on
  the empty list goes through. \<open>r2_sent\<close> are the PutObject commands that the storage has
  accepted.
\<close>

record world =
  users :: "(string \<times> user_row) list"
  demos :: "(string \<times> demo_row) list"
  db_faults :: "string option list"
  r2_faults :: "string option list"
  r2_sent :: "put_object list"

definition db_call :: "world \<Rightarrow> string option \<times> world" where
  "db_call w = (case db_faults w of [] \<Rightarrow> (None, w) | f # fs \<Rightarrow> (f, w\<lparr>db_faults := fs\<rparr>))"

definition r2_call :: "world \<Rightarrow> string option \<times> world" where
  "r2_call w = (case r2_faults w of [] \<Rightarrow> (None, w) | f # fs \<Rightarrow> (f, w\<lparr>r2_faults := fs\<rparr>))"

subsubsection \<open>The Prisma client\<close>

text \<open>
  The fields that a handler takes from the raw body are values of any type, or \<open>undefined\<close>;
  Prisma checks them against the column types and throws on a mismatch.
\<close>

text \<open>\<open>prisma.user.findUnique({where: {email}})\<close>\<close>

definition user_findUnique_email ::
  "json option \<Rightarrow> world \<Rightarrow> (string + (string \<times> user_row) option) \<times> world" where
  "user_findUnique_email email w =
     (case db_call w of
        (Some m, w') \<Rightarrow> (Inl m, w')
      | (None, w') \<Rightarrow>
          (case email of
             Some (JStr em) \<Rightarrow> (Inr (find (\<lambda>(i, u). user_email u = em) (users w')), w')
           | _ \<Rightarrow> (Inl ''PrismaClientValidationError'', w')))"

text \<open>\<open>prisma.user.findUnique({where: {id}})\<close>\<close>

definition user_findUnique_id ::
  "string \<Rightarrow> world \<Rightarrow> (string + (string \<times> user_row) option) \<times> world" where
  "user_findUnique_id i w =
     (case db_call w of
        (Some m, w') \<Rightarrow> (Inl m, w')
      | (None, w') \<Rightarrow>
          (Inr (case map_of (users w') i of None \<Rightarrow> None | Some u \<Rightarrow> Some (i, u)), w'))"

text \<open>
  \<open>prisma.user.create({data: {email, password, name}})\<close>: the new row gets the identifier
  and the time of the database; a second row with the same key or the same email violates a
  unique constraint.
\<close>

definition user_create ::
  "env \<Rightarrow> json option \<Rightarrow> json option \<Rightarrow> json option \<Rightarrow> world \<Rightarrow>
     (string + (string \<times> user_row)) \<times> world" where
  "user_create e email password name w =
     (case db_call w of
        (Some m, w') \<Rightarrow> (Inl m, w')
      | (None, w') \<Rightarrow>
          (case (email, password, name) of
             (Some (JStr em), Some (JStr pw), Some (JStr nm)) \<Rightarrow>
               if map_of (users w') (db_new_id e) \<noteq> None
                  \<or> find (\<lambda>(i, u). user_email u = em) (users w') \<noteq> None
               then (Inl ''P2002'', w')
               else
                 (let row = \<lparr>user_email = em, user_password = pw, user_name = nm,
                              user_createdAt = db_now e\<rparr>
                  in (Inr (db_new_id e, row),
                      w'\<lparr>users := AList.update (db_new_id e) row (users w')\<rparr>))
           | _ \<Rightarrow> (Inl ''PrismaClientValidationError'', w')))"

text \<open>\<open>prisma.demo.findFirst({where: {id, user: {id: userId}}})\<close>\<close>

definition demo_findFirst ::
  "string \<Rightarrow> string \<Rightarrow> world \<Rightarrow> (string + (string \<times> demo_row) option) \<times> world" where
  "demo_findFirst i uid w =
     (case db_call w of
        (Some m, w') \<Rightarrow> (Inl m, w')
      | (None, w') \<Rightarrow>
          (Inr (case map_of (demos w') i of
                  None \<Rightarrow> None
                | Some d \<Rightarrow> if demo_userId d = uid then Some (i, d) else None), w'))"

text \<open>
  \<open>prisma.demo.findMany({where: {user: {id: userId}}, orderBy: {createdAt: 'desc'}})\<close>
\<close>

definition demo_findMany ::
  "string \<Rightarrow> world \<Rightarrow> (string + (string \<times> demo_row) list) \<times> world" where
  "demo_findMany uid w =
     (case db_call w of
        (Some m, w') \<Rightarrow> (Inl m, w')
      | (None, w') \<Rightarrow>
          (Inr (rev (sort_key (\<lambda>(i, d). demo_createdAt d)
                       (filter (\<lambda>(i, d). demo_userId d = uid) (demos w')))), w'))"

text \<open>
  The \<open>data\<close> object of \<open>prisma.demo.create\<close> and \<open>prisma.demo.update\<close>, as the handlers
  build it from the destructured body.
\<close>

record demo_fields =
  f_title :: "json option"
  f_description :: "json option"
  f_type :: "json option"
  f_content :: "json option"
  f_thumbnail :: "json option"
  f_url :: "json option"
  f_isPublic :: "json option"

text \<open>
  How Prisma reads one member of \<open>data\<close>: \<open>Inl ()\<close> is a value of the wrong type,
  \<open>Inr None\<close> is \<open>undefined\<close> (the member is left out of the statement), \<open>Inr (Some x)\<close> is
  the value to store.
\<close>

definition required_string :: "json option \<Rightarrow> unit + string option" where
  "required_string v =
     (case v of None \<Rightarrow> Inr None | Some (JStr s) \<Rightarrow> Inr (Some s) | Some _ \<Rightarrow> Inl ())"

definition nullable_string :: "json option \<Rightarrow> unit + string option option" where
  "nullable_string v =
     (case v of
        None \<Rightarrow> Inr None
      | Some JNull \<Rightarrow> Inr (Some None)
      | Some (JStr s) \<Rightarrow> Inr (Some (Some s))
      | Some _ \<Rightarrow> Inl ())"

definition required_bool :: "json option \<Rightarrow> unit + bool option" where
  "required_bool v =
     (case v of None \<Rightarrow> Inr None | Some (JBool b) \<Rightarrow> Inr (Some b) | Some _ \<Rightarrow> Inl ())"

text \<open>
  \<open>prisma.demo.create({data: {..., views: 0, user: {connect: {id: userId}}}})\<close>: a required
  column needs a value or a default, an optional column left out is NULL, and the user to
  connect must exist.
\<close>

definition demo_create ::
  "env \<Rightarrow> demo_fields \<Rightarrow> int \<Rightarrow> string \<Rightarrow> world \<Rightarrow> (string + (string \<times> demo_row)) \<times> world" where
  "demo_create e d views uid w =
     (case db_call w of
        (Some m, w') \<Rightarrow> (Inl m, w')
      | (None, w') \<Rightarrow>
          (case (required_string (f_title d), required_string (f_description d),
                 required_string (f_type d), required_string (f_content d),
                 nullable_string (f_thumbnail d), nullable_string (f_url d),
                 required_bool (f_isPublic d)) of
             (Inr (Some t), Inr (Some de), Inr (Some ty), Inr (Some c), Inr th, Inr u, Inr p) \<Rightarrow>
               (case (case p of None \<Rightarrow> isPublic_default e | Some b \<Rightarrow> Some b) of
                  None \<Rightarrow> (Inl ''PrismaClientValidationError'', w')
                | Some pub \<Rightarrow>
                    if map_of (users w') uid = None then (Inl ''P2025'', w')
                    else if map_of (demos w') (db_new_id e) \<noteq> None then (Inl ''P2002'', w')
                    else
                      (let row = \<lparr>demo_title = t, demo_description = de, demo_type = ty,
                                   demo_content = c,
                                   demo_thumbnail = (case th of None \<Rightarrow> None | Some x \<Rightarrow> x),
                                   demo_url = (case u of None \<Rightarrow> None | Some x \<Rightarrow> x),
                                   demo_isPublic = pub, demo_views = views,
                                   demo_userId = uid, demo_createdAt = db_now e\<rparr>
                       in (Inr (db_new_id e, row),
                           w'\<lparr>demos := AList.update (db_new_id e) row (demos w')\<rparr>)))
           | _ \<Rightarrow> (Inl ''PrismaClientValidationError'', w')))"

text \<open>
  \<open>prisma.demo.update({where: {id}, data})\<close> with the seven fields: a member that is
  \<open>undefined\<close> leaves its column as it is; \<open>null\<close> is accepted by the optional columns only.
\<close>

definition demo_update ::
  "string \<Rightarrow> demo_fields \<Rightarrow> world \<Rightarrow> (string + (string \<times> demo_row)) \<times> world" where
  "demo_update i d w =
     (case db_call w of
        (Some m, w') \<Rightarrow> (Inl m, w')
      | (None, w') \<Rightarrow>
          (case (required_string (f_title d), required_string (f_description d),
                 required_string (f_type d), required_string (f_content d),
                 nullable_string (f_thumbnail d), nullable_string (f_url d),
                 required_bool (f_isPublic d)) of
             (Inr t, Inr de, Inr ty, Inr c, Inr th, Inr u, Inr p) \<Rightarrow>
               (case map_of (demos w') i of
                  None \<Rightarrow> (Inl ''P2025'', w')
                | Some old \<Rightarrow>
                    (let row = old\<lparr>
                           demo_title := (case t of None \<Rightarrow> demo_title old | Some x \<Rightarrow> x),
                           demo_description :=
                             (case de of None \<Rightarrow> demo_description old | Some x \<Rightarrow> x),
                           demo_type := (case ty of None \<Rightarrow> demo_type old | Some x \<Rightarrow> x),
                           demo_content := (case c of None \<Rightarrow> demo_content old | Some x \<Rightarrow> x),
                           demo_thumbnail :=
                             (case th of None \<Rightarrow> demo_thumbnail old | Some x \<Rightarrow> x),
                           demo_url := (case u of None \<Rightarrow> demo_url old | Some x \<Rightarrow> x),
                           demo_isPublic :=
                             (case p of None \<Rightarrow> demo_isPublic old | Some x \<Rightarrow> x)\<rparr>
                     in (Inr (i, row), w'\<lparr>demos := AList.update i row (demos w')\<rparr>)))
           | _ \<Rightarrow> (Inl ''PrismaClientValidationError'', w')))"

text \<open>\<open>prisma.demo.update({where: {id}, data: {views: {increment: 1}}})\<close>\<close>

definition demo_increment_views ::
  "string \<Rightarrow> world \<Rightarrow> (string + (string \<times> demo_row)) \<times> world" where
  "demo_increment_views i w =
     (case db_call w of
        (Some m, w') \<Rightarrow> (Inl m, w')
      | (None, w') \<Rightarrow>
          (case map_of (demos w') i of
             None \<Rightarrow> (Inl ''P2025'', w')
           | Some old \<Rightarrow>
               (let row = old\<lparr>demo_views := demo_views old + 1\<rparr>
                in (Inr (i, row), w'\<lparr>demos := AList.update i row (demos w')\<rparr>))))"

text \<open>\<open>prisma.demo.delete({where: {id}})\<close>\<close>

definition demo_delete :: "string \<Rightarrow> world \<Rightarrow> (string + (string \<times> demo_row)) \<times> world" where
  "demo_delete i w =
     (case db_call w of
        (Some m, w') \<Rightarrow> (Inl m, w')
      | (None, w') \<Rightarrow>
          (case map_of (demos w') i of
             None \<Rightarrow> (Inl ''P2025'', w')
           | Some old \<Rightarrow> (Inr (i, old), w'\<lparr>demos := AList.delete i (demos w')\<rparr>)))"

subsubsection \<open>The storage client\<close>

text \<open>\<open>r2Client.send(new PutObjectCommand(params))\<close>\<close>

definition r2_send :: "put_object \<Rightarrow> world \<Rightarrow> (string + unit) \<times> world" where
  "r2_send params w =
     (case r2_call w of
        (Some m, w') \<Rightarrow> (Inl m, w')
      | (None, w') \<Rightarrow> (Inr (), w'\<lparr>r2_sent := r2_sent w' @ [params]\<rparr>))"

subsection \<open>Validation schemas\<close>

text \<open>
  A zod object schema accepts an object whose listed properties pass their tests and
  ignores the other properties; \<open>safeParse\<close> returns the parsed data on success (\<open>Some\<close>)
  and no data on failure (\<open>None\<close>).
\<close>

record signup_data =
  su_name :: string
  su_email :: string
  su_password :: string

record signin_data =
  si_email :: string
  si_password :: string

record demo_data =
  dd_title :: string
  dd_description :: string
  dd_type :: string
  dd_content :: string
  dd_thumbnail :: "string option"
  dd_url :: "string option"
  dd_isPublic :: bool

text \<open>\<open>zod.string()\<close>, with \<open>.min(n)\<close> when \<open>0 < n\<close>\<close>

definition zod_string :: "nat \<Rightarrow> json option \<Rightarrow> string option" where
  "zod_string n v = (case v of Some (JStr s) \<Rightarrow> if n \<le> length s then Some s else None | _ \<Rightarrow> None)"

text \<open>\<open>zod.string().email()\<close>\<close>

definition zod_email :: "env \<Rightarrow> json option \<Rightarrow> string option" where
  "zod_email e v = (case v of Some (JStr s) \<Rightarrow> if is_email e s then Some s else None | _ \<Rightarrow> None)"

text \<open>\<open>zod.string().optional()\<close>: \<open>undefined\<close> passes, \<open>null\<close> does not.\<close>

definition zod_string_optional :: "json option \<Rightarrow> string option option" where
  "zod_string_optional v =
     (case v of None \<Rightarrow> Some None | Some (JStr s) \<Rightarrow> Some (Some s) | Some _ \<Rightarrow> None)"

text \<open>\<open>zod.boolean().optional().default(false)\<close>\<close>

definition zod_boolean_default :: "bool \<Rightarrow> json option \<Rightarrow> bool option" where
  "zod_boolean_default d v =
     (case v of None \<Rightarrow> Some d | Some (JBool b) \<Rightarrow> Some b | Some _ \<Rightarrow> None)"

definition is_object :: "json \<Rightarrow> bool" where
  "is_object b = (case b of JObj kvs \<Rightarrow> True | _ \<Rightarrow> False)"

definition signupSchema :: "env \<Rightarrow> json \<Rightarrow> signup_data option" where
  "signupSchema e b =
     (if \<not> is_object b then None
      else
        (case (zod_string 3 (body_field b ''name''), zod_email e (body_field b ''email''),
               zod_string 0 (body_field b ''password'')) of
           (Some n, Some em, Some pw) \<Rightarrow> Some \<lparr>su_name = n, su_email = em, su_password = pw\<rparr>
         | _ \<Rightarrow> None))"

definition signinSchema :: "env \<Rightarrow> json \<Rightarrow> signin_data option" where
  "signinSchema e b =
     (if \<not> is_object b then None
      else
        (case (zod_email e (body_field b ''email''), zod_string 0 (body_field b ''password'')) of
           (Some em, Some pw) \<Rightarrow> Some \<lparr>si_email = em, si_password = pw\<rparr>
         | _ \<Rightarrow> None))"

definition demoSchema :: "json \<Rightarrow> demo_data option" where
  "demoSchema b =
     (if \<not> is_object b then None
      else
        (case (zod_string 1 (body_field b ''title''), zod_string 0 (body_field b ''description''),
               zod_string 0 (body_field b ''type''), zod_string 0 (body_field b ''content'')) of
           (Some t, Some de, Some ty, Some c) \<Rightarrow>
             (case (zod_string_optional (body_field b ''thumbnail''),
                    zod_string_optional (body_field b ''url''),
                    zod_boolean_default False (body_field b ''isPublic'')) of
                (Some th, Some u, Some p) \<Rightarrow>
                  Some \<lparr>dd_title = t, dd_description = de, dd_type = ty, dd_content = c,
                        dd_thumbnail = th, dd_url = u, dd_isPublic = p\<rparr>
              | _ \<Rightarrow> None)
         | _ \<Rightarrow> None))"

subsection \<open>The authentication middleware\<close>

text \<open>\<open>s.split(c)\<close> for a separator of one character, and \<open>xs[i]\<close> with \<open>undefined\<close> as \<open>None\<close>.\<close>

fun split :: "char \<Rightarrow> string \<Rightarrow> string list" where
  "split c [] = [[]]"
| "split c (x # xs) =
     (if x = c then [] # split c xs
      else (case split c xs of [] \<Rightarrow> [[x]] | p # ps \<Rightarrow> (x # p) # ps))"

definition index :: "'a list \<Rightarrow> nat \<Rightarrow> 'a option" where
  "index xs i = (if i < length xs then Some (xs ! i) else None)"

text \<open>
  The result is \<open>Inl\<close> of the response when the middleware answers itself, and \<open>Inr\<close> of the
  request handed to \<open>next()\<close>.
\<close>

definition authenticateToken :: "env \<Rightarrow> request \<Rightarrow> response + request" where
  "authenticateToken e req =
     (case authorization req of
        None \<Rightarrow> Inl (respond 401 (message ''Authentication required''))
      | Some authHeader \<Rightarrow>
          if authHeader = [] \<or> \<not> prefix ''Bearer '' authHeader
          then Inl (respond 401 (message ''Authentication required''))
          else
            (case index (split CHR '' '' authHeader) 1 of
               None \<Rightarrow> Inl (respond 401 (message ''Authentication required''))
             | Some token \<Rightarrow>
                 if token = [] then Inl (respond 401 (message ''Authentication required''))
                 else
                   (case jwt_verify e token of
                      Inl err \<Rightarrow> Inl (respond 403 (message ''Invalid or expired token''))
                    | Inr u \<Rightarrow> Inr (req\<lparr>user := Some \<lparr>userId = userId u\<rparr>\<rparr>))))"

text \<open>\<open>app.METHOD(path, authenticateToken, handler)\<close>\<close>

definition protected ::
  "(env \<Rightarrow> world \<Rightarrow> request \<Rightarrow> response \<times> world) \<Rightarrow> env \<Rightarrow> world \<Rightarrow> request \<Rightarrow> response \<times> world"
  where
  "protected handler e w req =
     (case authenticateToken e req of
        Inl res \<Rightarrow> (res, w)
      | Inr req' \<Rightarrow> handler e w req')"

subsection \<open>Authentication routes\<close>

text \<open>
  \<open>POST /api/auth/signup\<close>. The comparison \<open>password !== confirmPassword\<close> is between a
  string (the schema has passed) and any value, so it is equality of values.
\<close>

definition post_auth_signup :: "env \<Rightarrow> world \<Rightarrow> request \<Rightarrow> response \<times> world" where
  "post_auth_signup e w req =
     (case signupSchema e (req_body req) of
        None \<Rightarrow> (respond 411 (message ''Invalid input data''), w)
      | Some parsed \<Rightarrow>
          (let name = body_field (req_body req) ''name'';
               email = body_field (req_body req) ''email'';
               password = body_field (req_body req) ''password'';
               confirmPassword = body_field (req_body req) ''confirmPassword''
           in if password \<noteq> confirmPassword
              then (respond 411 (message ''Passwords do not match''), w)
              else
                (case user_findUnique_email email w of
                   (Inl err, w1) \<Rightarrow> (respond 500 (message ''Internal server error''), w1)
                 | (Inr (Some existingUser), w1) \<Rightarrow>
                     (respond 411 (message ''Email already taken''), w1)
                 | (Inr None, w1) \<Rightarrow>
                     (case user_create e email password name w1 of
                        (Inl err, w2) \<Rightarrow> (respond 500 (message ''Internal server error''), w2)
                      | (Inr (uid, u), w2) \<Rightarrow>
                          (respond 200
                             (JObj [(''message'', JStr ''User created successfully''),
                                    (''token'', JStr (jwt_sign e uid))]), w2)))))"

text \<open>\<open>POST /api/auth/login\<close>; \<open>error?.message || "Unknown error occurred"\<close> in the outer catch.\<close>

definition post_auth_login :: "env \<Rightarrow> world \<Rightarrow> request \<Rightarrow> response \<times> world" where
  "post_auth_login e w req =
     (case signinSchema e (req_body req) of
        None \<Rightarrow> (respond 400 (message ''Invalid email or password format''), w)
      | Some parsed \<Rightarrow>
          (case user_findUnique_email (Some (JStr (si_email parsed))) w of
             (Inl err, w1) \<Rightarrow>
               (respond 500
                  (JObj [(''message'', JStr ''Internal server error''),
                         (''details'', JStr (if err = [] then ''Unknown error occurred'' else err))]),
                w1)
           | (Inr found, w1) \<Rightarrow>
               (case found of
                  None \<Rightarrow> (respond 401 (message ''Invalid email or password''), w1)
                | Some (uid, u) \<Rightarrow>
                    if user_password u \<noteq> si_password parsed
                    then (respond 401 (message ''Invalid email or password''), w1)
                    else (respond 200 (JObj [(''token'', JStr (jwt_sign e uid))]), w1))))"

text \<open>\<open>GET /api/auth/me\<close>\<close>

definition get_auth_me :: "env \<Rightarrow> world \<Rightarrow> request \<Rightarrow> response \<times> world" where
  "get_auth_me e w req =
     (case user req of
        None \<Rightarrow> (respond 401 (message ''Authentication required''), w)
      | Some au \<Rightarrow>
          (case user_findUnique_id (userId au) w of
             (Inl err, w1) \<Rightarrow> (respond 500 (message ''Internal server error''), w1)
           | (Inr None, w1) \<Rightarrow> (respond 404 (message ''User not found''), w1)
           | (Inr (Some (uid, u)), w1) \<Rightarrow>
               (respond 200
                  (JObj [(''user'', JObj [(''id'', JStr uid), (''email'', JStr (user_email u)),
                                          (''createdAt'', JDate (user_createdAt u))])]), w1)))"

subsection \<open>Demo routes\<close>

text \<open>The row as \<open>res.json\<close> sends it; a NULL column is \<open>null\<close>.\<close>

definition nullable :: "string option \<Rightarrow> json" where
  "nullable v = (case v of None \<Rightarrow> JNull | Some s \<Rightarrow> JStr s)"

definition demo_json :: "string \<times> demo_row \<Rightarrow> json" where
  "demo_json r =
     (case r of (i, d) \<Rightarrow>
        JObj [(''id'', JStr i), (''title'', JStr (demo_title d)),
              (''description'', JStr (demo_description d)), (''type'', JStr (demo_type d)),
              (''content'', JStr (demo_content d)), (''thumbnail'', nullable (demo_thumbnail d)),
              (''url'', nullable (demo_url d)), (''isPublic'', JBool (demo_isPublic d)),
              (''views'', JNum (demo_views d)), (''userId'', JStr (demo_userId d)),
              (''createdAt'', JDate (demo_createdAt d))])"

text \<open>
  \<open>const { title, description, type, content, thumbnail, url, isPublic } = req.body\<close>: the
  raw body, not the data that \<open>safeParse\<close> returns.
\<close>

definition destructure :: "json \<Rightarrow> demo_fields" where
  "destructure b =
     \<lparr>f_title = body_field b ''title'', f_description = body_field b ''description'',
      f_type = body_field b ''type'', f_content = body_field b ''content'',
      f_thumbnail = body_field b ''thumbnail'', f_url = body_field b ''url'',
      f_isPublic = body_field b ''isPublic''\<rparr>"

text \<open>\<open>POST /api/demos\<close>\<close>

definition post_demos :: "env \<Rightarrow> world \<Rightarrow> request \<Rightarrow> response \<times> world" where
  "post_demos e w req =
     (case user req of
        None \<Rightarrow> (respond 401 (message ''Authentication required''), w)
      | Some au \<Rightarrow>
          (case demoSchema (req_body req) of
             None \<Rightarrow> (respond 400 (message ''Invalid demo data''), w)
           | Some parsed \<Rightarrow>
               (case demo_create e (destructure (req_body req)) 0 (userId au) w of
                  (Inl err, w1) \<Rightarrow> (respond 500 (message ''Internal server error''), w1)
                | (Inr demo, w1) \<Rightarrow> (respond 201 (demo_json demo), w1))))"

text \<open>\<open>GET /api/demos\<close>\<close>

definition get_demos :: "env \<Rightarrow> world \<Rightarrow> request \<Rightarrow> response \<times> world" where
  "get_demos e w req =
     (case user req of
        None \<Rightarrow> (respond 401 (message ''Authentication required''), w)
      | Some au \<Rightarrow>
          (case demo_findMany (userId au) w of
             (Inl err, w1) \<Rightarrow> (respond 500 (message ''Internal server error''), w1)
           | (Inr rows, w1) \<Rightarrow> (respond 200 (JArr (map demo_json rows)), w1)))"

text \<open>\<open>GET /api/demos/:id\<close>\<close>

definition get_demo :: "env \<Rightarrow> world \<Rightarrow> request \<Rightarrow> response \<times> world" where
  "get_demo e w req =
     (case user req of
        None \<Rightarrow> (respond 401 (message ''Authentication required''), w)
      | Some au \<Rightarrow>
          (case demo_findFirst (params_id req) (userId au) w of
             (Inl err, w1) \<Rightarrow> (respond 500 (message ''Internal server error''), w1)
           | (Inr None, w1) \<Rightarrow> (respond 404 (message ''Demo not found''), w1)
           | (Inr (Some demo), w1) \<Rightarrow>
               (case demo_increment_views (params_id req) w1 of
                  (Inl err, w2) \<Rightarrow> (respond 500 (message ''Internal server error''), w2)
                | (Inr updated, w2) \<Rightarrow> (respond 200 (demo_json demo), w2))))"

text \<open>\<open>PUT /api/demos/:id\<close>\<close>

definition put_demo :: "env \<Rightarrow> world \<Rightarrow> request \<Rightarrow> response \<times> world" where
  "put_demo e w req =
     (case user req of
        None \<Rightarrow> (respond 401 (message ''Authentication required''), w)
      | Some au \<Rightarrow>
          (case demoSchema (req_body req) of
             None \<Rightarrow> (respond 400 (message ''Invalid demo data''), w)
           | Some parsed \<Rightarrow>
               (case demo_findFirst (params_id req) (userId au) w of
                  (Inl err, w1) \<Rightarrow> (respond 500 (message ''Internal server error''), w1)
                | (Inr None, w1) \<Rightarrow> (respond 404 (message ''Demo not found''), w1)
                | (Inr (Some demo), w1) \<Rightarrow>
                    (case demo_update (params_id req) (destructure (req_body req)) w1 of
                       (Inl err, w2) \<Rightarrow> (respond 500 (message ''Internal server error''), w2)
                     | (Inr updatedDemo, w2) \<Rightarrow> (respond 200 (demo_json updatedDemo), w2)))))"

text \<open>\<open>DELETE /api/demos/:id\<close>\<close>

definition delete_demo :: "env \<Rightarrow> world \<Rightarrow> request \<Rightarrow> response \<times> world" where
  "delete_demo e w req =
     (case user req of
        None \<Rightarrow> (respond 401 (message ''Authentication required''), w)
      | Some au \<Rightarrow>
          (case demo_findFirst (params_id req) (userId au) w of
             (Inl err, w1) \<Rightarrow> (respond 500 (message ''Internal server error''), w1)
           | (Inr None, w1) \<Rightarrow> (respond 404 (message ''Demo not found''), w1)
           | (Inr (Some demo), w1) \<Rightarrow>
               (case demo_delete (params_id req) w1 of
                  (Inl err, w2) \<Rightarrow> (respond 500 (message ''Internal server error''), w2)
                | (Inr deleted, w2) \<Rightarrow>
                    (respond 200 (message ''Demo deleted successfully''), w2))))"

subsection \<open>Image upload\<close>

text \<open>The decimal digits of a number, as a template literal prints \<open>Date.now()\<close>.\<close>

fun decimal :: "nat \<Rightarrow> string" where
  "decimal n =
     (if n < 10 then [''0123456789'' ! n]
      else decimal (n div 10) @ [''0123456789'' ! (n mod 10)])"

declare decimal.simps [simp del]

definition upload_key :: "env \<Rightarrow> upload_file \<Rightarrow> string" where
  "upload_key e f = ''uploads/'' @ decimal (date_now e) @ ''-'' @ originalname f"

text \<open>
  \<open>POST /api/upload-image\<close>, after \<open>upload.single('image')\<close> has put the file of the
  multipart field into \<open>req.file\<close>. \<open>upload_try\<close> is the outer \<open>try\<close> block: \<open>Inr\<close> is the
  response it returns and \<open>Inl\<close> the message of an error that leaves the block. The storage
  call is inside the inner \<open>try\<close>, whose \<open>catch\<close> answers itself. \<open>JSON.stringify\<close> leaves a
  member out whose value is \<open>undefined\<close>, as the endpoint in \<open>details\<close> may be.
\<close>

definition upload_try :: "env \<Rightarrow> world \<Rightarrow> request \<Rightarrow> (string + response) \<times> world" where
  "upload_try e w req =
     (case user req of
        None \<Rightarrow> (Inr (respond 401 (message ''Authentication required'')), w)
      | Some au \<Rightarrow>
          (case req_file req of
             None \<Rightarrow> (Inr (respond 400 (message ''No image file provided'')), w)
           | Some f \<Rightarrow>
               if R2_BUCKET_NAME e = []
               then (Inr (respond 500 (message ''R2 bucket name not configured'')), w)
               else
                 (let key = upload_key e f;
                      params = \<lparr>Bucket = R2_BUCKET_NAME e, Key = key, Body = buffer f,
                                ContentType = mimetype f\<rparr>
                  in (case r2_send params w of
                        (Inl err, w1) \<Rightarrow>
                          (Inr (respond 500
                             (JObj [(''message'', JStr ''Upload to R2 failed''),
                                    (''error'', JStr err),
                                    (''details'',
                                     JObj ((''bucket'', JStr (R2_BUCKET_NAME e)) #
                                           (case process_env e ''CLOUDFLARE_R2_ENDPOINT'' of
                                              None \<Rightarrow> []
                                            | Some ep \<Rightarrow> [(''endpoint'', JStr ep)])))])), w1)
                      | (Inr u, w1) \<Rightarrow>
                          (Inr (respond 200
                             (JObj [(''url'', JStr (R2_PUBLIC_URL e @ ''/'' @ key))])), w1)))))"

text \<open>The handler: the outer \<open>try\<close> block and its \<open>catch\<close>.\<close>

definition post_upload_image :: "env \<Rightarrow> world \<Rightarrow> request \<Rightarrow> response \<times> world" where
  "post_upload_image e w req =
     (case upload_try e w req of
        (Inl err, w1) \<Rightarrow>
          (respond 500 (JObj [(''message'', JStr ''Internal server error''), (''error'', JStr err)]),
           w1)
      | (Inr res, w1) \<Rightarrow> (res, w1))"

subsection \<open>Error responses\<close>

text \<open>
  A response is an error response when its status is 400 or above. Its body has the shape
  \<open>{message}\<close> when it is an object with the one member \<open>message\<close>, a string; it has a
  message when \<open>message\<close> is among its members and is a string.
\<close>

definition error_response :: "response \<Rightarrow> bool" where
  "error_response r = (400 \<le> status r)"

definition message_only :: "json \<Rightarrow> bool" where
  "message_only b = (case b of JObj [(k, JStr m)] \<Rightarrow> k = ''message'' | _ \<Rightarrow> False)"

definition has_message :: "json \<Rightarrow> bool" where
  "has_message b = (case body_field b ''message'' of Some (JStr m) \<Rightarrow> True | _ \<Rightarrow> False)"

subsection \<open>Example data\<close>

text \<open>
  An environment, a state with two users and one demo of the first user, and requests, on
  which the theorems below are instantiated. The example token of user \<open>u\<close> is \<open>jwt:u\<close>.
\<close>

definition env0 :: env where
  "env0 =
     \<lparr>jwt_sign = (\<lambda>u. ''jwt:'' @ u),
      jwt_verify =
        (\<lambda>t. if take 4 t = ''jwt:'' then Inr \<lparr>userId = drop 4 t\<rparr> else Inl ''invalid signature''),
      is_email = (\<lambda>s. CHR ''@'' \<in> set s),
      process_env = [''CLOUDFLARE_R2_BUCKET_NAME'' \<mapsto> ''arcade''],
      date_now = 42, db_new_id = ''d2'', db_now = 20, isPublic_default = Some True\<rparr>"

definition demo1 :: demo_row where
  "demo1 =
     \<lparr>demo_title = ''Tour'', demo_description = ''A tour'', demo_type = ''video'',
      demo_content = ''c'', demo_thumbnail = Some ''t.png'', demo_url = None,
      demo_isPublic = True, demo_views = 5, demo_userId = ''u1'', demo_createdAt = 10\<rparr>"

definition ann :: user_row where
  "ann = \<lparr>user_email = ''a@x.com'', user_password = ''p'', user_name = ''Ann'', user_createdAt = 1\<rparr>"

definition bob :: user_row where
  "bob = \<lparr>user_email = ''b@x.com'', user_password = ''q'', user_name = ''Bob'', user_createdAt = 2\<rparr>"

definition world0 :: world where
  "world0 =
     \<lparr>users = [(''u1'', ann), (''u2'', bob)], demos = [(''d1'', demo1)],
      db_faults = [], r2_faults = [], r2_sent = []\<rparr>"

text \<open>The request of user \<open>u\<close> for the demo \<open>i\<close> with body \<open>b\<close>, past the middleware.\<close>

definition request_of :: "string \<Rightarrow> string \<Rightarrow> json \<Rightarrow> request" where
  "request_of u i b =
     \<lparr>authorization = Some (''Bearer jwt:'' @ u), req_body = b, params_id = i,
      user = Some \<lparr>userId = u\<rparr>, req_file = None\<rparr>"

definition credentials :: "string \<Rightarrow> string \<Rightarrow> json" where
  "credentials em pw = JObj [(''email'', JStr em), (''password'', JStr pw)]"

definition anonymous :: "json \<Rightarrow> request" where
  "anonymous b =
     \<lparr>authorization = None, req_body = b, params_id = [], user = None, req_file = None\<rparr>"

text \<open>A payload for a demo with the four required fields only.\<close>

definition payload0 :: json where
  "payload0 =
     JObj [(''title'', JStr ''New''), (''description'', JStr ''d''), (''type'', JStr ''t''),
           (''content'', JStr ''c'')]"

definition parsed0 :: demo_data where
  "parsed0 =
     \<lparr>dd_title = ''New'', dd_description = ''d'', dd_type = ''t'', dd_content = ''c'',
      dd_thumbnail = None, dd_url = None, dd_isPublic = False\<rparr>"

definition signup_body :: "string \<Rightarrow> string \<Rightarrow> string \<Rightarrow> string \<Rightarrow> json" where
  "signup_body nm em pw cpw =
     JObj [(''name'', JStr nm), (''email'', JStr em), (''password'', JStr pw),
           (''confirmPassword'', JStr cpw)]"

text \<open>A request with the Authorization header \<open>h\<close>, before the middleware.\<close>

definition with_header :: "string \<Rightarrow> request" where
  "with_header h =
     \<lparr>authorization = Some h, req_body = JObj [], params_id = ''d1'', user = None,
      req_file = None\<rparr>"

definition png :: upload_file where
  "png = \<lparr>originalname = ''a.png'', mimetype = ''image/png'', file_size = 2, buffer = [137, 80]\<rparr>"

definition upload_of :: "string \<Rightarrow> upload_file option \<Rightarrow> request" where
  "upload_of u f =
     \<lparr>authorization = Some (''Bearer jwt:'' @ u), req_body = JObj [], params_id = [],
      user = Some \<lparr>userId = u\<rparr>, req_file = f\<rparr>"



section \<open>Properties\<close>

subsection \<open>Auxiliary facts about the database calls\<close>

lemma db_call_ok: "db_faults w = [] \<Longrightarrow> db_call w = (None, w)"
  by (simp add: db_call_def)

lemma db_call_tables:
  "db_call w = (f, w') \<Longrightarrow>
   users w' = users w \<and> demos w' = demos w \<and> r2_sent w' = r2_sent w \<and> r2_faults w' = r2_faults w"
  by (auto simp: db_call_def split: list.splits)

lemma update_present_keys: "map_of al k = Some v \<Longrightarrow> map fst (AList.update k v' al) = map fst al"
  by (induction al) auto

lemma update_fresh: "map_of al k = None \<Longrightarrow> AList.update k v al = al @ [(k, v)]"
  by (induction al) (auto split: if_splits)

lemma demo_findFirst_ok:
  "db_faults w = [] \<Longrightarrow>
   demo_findFirst i uid w =
     (Inr (case map_of (demos w) i of None \<Rightarrow> None
           | Some d \<Rightarrow> if demo_userId d = uid then Some (i, d) else None), w)"
  by (simp add: demo_findFirst_def db_call_ok)

lemma demo_findFirst_tables:
  "demo_findFirst i uid w = (r, w') \<Longrightarrow>
   users w' = users w \<and> demos w' = demos w \<and> r2_sent w' = r2_sent w"
  by (auto simp: demo_findFirst_def split: prod.splits option.splits dest: db_call_tables)

lemma demo_findFirst_other:
  "map_of (demos w) i = Some D \<Longrightarrow> demo_userId D \<noteq> uid \<Longrightarrow>
   demo_findFirst i uid w = (Inr r, w') \<Longrightarrow> r = None"
  by (auto simp: demo_findFirst_def split: prod.splits option.splits dest: db_call_tables)

lemma demo_increment_views_ok:
  "db_faults w = [] \<Longrightarrow> map_of (demos w) i = Some D \<Longrightarrow>
   demo_increment_views i w =
     (Inr (i, D\<lparr>demo_views := demo_views D + 1\<rparr>),
      w\<lparr>demos := AList.update i (D\<lparr>demo_views := demo_views D + 1\<rparr>) (demos w)\<rparr>)"
  by (simp add: demo_increment_views_def db_call_ok Let_def)

lemma user_findUnique_email_ok:
  "db_faults w = [] \<Longrightarrow>
   user_findUnique_email (Some (JStr em)) w =
     (Inr (find (\<lambda>(i, u). user_email u = em) (users w)), w)"
  by (simp add: user_findUnique_email_def db_call_ok)

subsection \<open>Ownership\<close>

text \<open>
  C1, as the code has it. Let the demo \<open>D\<close> belong to \<open>u1\<close> and let another user \<open>u2\<close> ask
  for it by its identifier. Whatever the database does, get-by-id, update and delete leave
  the table of demos as it is, so no field of \<open>D\<close>, and not its view counter, changes. When
  the database answers, get-by-id and delete return 404 "Demo not found"; update validates
  the payload before it looks the demo up, so it returns 400 "Invalid demo data" for a
  payload that fails the demo schema and 404 otherwise.
\<close>

theorem foreign_demo_hidden:
  assumes own: "map_of (demos w) (params_id req) = Some D" "demo_userId D = u1"
    and other: "user req = Some \<lparr>userId = u2\<rparr>" "u1 \<noteq> u2"
  shows "demos (snd (get_demo e w req)) = demos w
       \<and> demos (snd (put_demo e w req)) = demos w
       \<and> demos (snd (delete_demo e w req)) = demos w
       \<and> (db_faults w = [] \<longrightarrow>
            get_demo e w req = (respond 404 (message ''Demo not found''), w)
          \<and> delete_demo e w req = (respond 404 (message ''Demo not found''), w)
          \<and> put_demo e w req =
              (if demoSchema (req_body req) = None then respond 400 (message ''Invalid demo data'')
               else respond 404 (message ''Demo not found''), w))"
proof -
  have ne: "demo_userId D \<noteq> u2" using own(2) other(2) by simp
  have g: "demos (snd (get_demo e w req)) = demos w"
    using own(1) ne other(1)
    by (auto simp: get_demo_def split: prod.splits sum.splits option.splits
             dest: demo_findFirst_tables demo_findFirst_other)
  have p: "demos (snd (put_demo e w req)) = demos w"
    using own(1) ne other(1)
    by (auto simp: put_demo_def split: prod.splits sum.splits option.splits
             dest: demo_findFirst_tables demo_findFirst_other)
  have d: "demos (snd (delete_demo e w req)) = demos w"
    using own(1) ne other(1)
    by (auto simp: delete_demo_def split: prod.splits sum.splits option.splits
             dest: demo_findFirst_tables demo_findFirst_other)
  have r: "get_demo e w req = (respond 404 (message ''Demo not found''), w)
          \<and> delete_demo e w req = (respond 404 (message ''Demo not found''), w)
          \<and> put_demo e w req =
              (if demoSchema (req_body req) = None then respond 400 (message ''Invalid demo data'')
               else respond 404 (message ''Demo not found''), w)" if "db_faults w = []"
    using own(1) ne other(1) that
    by (auto simp: get_demo_def put_demo_def delete_demo_def demo_findFirst_ok)
  from g p d r show ?thesis by blast
qed

theorem foreign_demo_hidden_witness:
  "map_of (demos world0) (params_id (request_of ''u2'' ''d1'' (JObj []))) = Some demo1
   \<and> demo_userId demo1 = ''u1''
   \<and> user (request_of ''u2'' ''d1'' (JObj [])) = Some \<lparr>userId = ''u2''\<rparr>
   \<and> ''u1'' \<noteq> ''u2''
   \<and> db_faults world0 = []
   \<and> demos (snd (get_demo env0 world0 (request_of ''u2'' ''d1'' (JObj [])))) = demos world0
   \<and> get_demo env0 world0 (request_of ''u2'' ''d1'' (JObj [])) =
       (respond 404 (message ''Demo not found''), world0)
   \<and> delete_demo env0 world0 (request_of ''u2'' ''d1'' (JObj [])) =
       (respond 404 (message ''Demo not found''), world0)
   \<and> demoSchema (req_body (request_of ''u2'' ''d1'' payload0)) = Some parsed0
   \<and> put_demo env0 world0 (request_of ''u2'' ''d1'' payload0) =
       (respond 404 (message ''Demo not found''), world0)"
proof -
  have v: "demoSchema payload0 = Some parsed0"
    by (simp add: demoSchema_def payload0_def parsed0_def is_object_def body_field_def
          zod_string_def zod_string_optional_def zod_boolean_default_def)
  show ?thesis
    using
      foreign_demo_hidden [of world0 "request_of ''u2'' ''d1'' (JObj [])" demo1 "''u1''" "''u2''" env0]
      foreign_demo_hidden [of world0 "request_of ''u2'' ''d1'' payload0" demo1 "''u1''" "''u2''" env0]
    by (simp add: world0_def request_of_def demo1_def v)
qed

text \<open>
  C1 as stated fails for update: the request of \<open>u2\<close> to update the demo \<open>d1\<close> of \<open>u1\<close> with
  the empty object as payload is answered with 400, not with 404.
\<close>

theorem foreign_update_invalid_payload:
  "map_of (demos world0) ''d1'' = Some demo1
   \<and> demo_userId demo1 = ''u1''
   \<and> user (request_of ''u2'' ''d1'' (JObj [])) = Some \<lparr>userId = ''u2''\<rparr>
   \<and> params_id (request_of ''u2'' ''d1'' (JObj [])) = ''d1''
   \<and> fst (put_demo env0 world0 (request_of ''u2'' ''d1'' (JObj []))) =
       respond 400 (message ''Invalid demo data'')
   \<and> status (fst (put_demo env0 world0 (request_of ''u2'' ''d1'' (JObj [])))) \<noteq> 404"
  by (simp add: world0_def request_of_def demo1_def put_demo_def demoSchema_def is_object_def
        body_field_def zod_string_def respond_def)

subsection \<open>Reading a demo\<close>

text \<open>
  C2. Let the caller be authenticated and the database answer. If the demo with the
  requested identifier belongs to the caller, get-by-id returns the row as it was before
  the call, with the old view counter, and stores the row with the counter increased by
  one; no row is added or removed and the users are untouched. If there is no demo with
  that identifier, or it belongs to someone else, the answer is 404 "Demo not found" and
  nothing changes.
\<close>

theorem get_demo_counts_view:
  assumes auth: "user req = Some au" and up: "db_faults w = []"
  shows "(\<forall>D. map_of (demos w) (params_id req) = Some D \<and> demo_userId D = userId au \<longrightarrow>
            fst (get_demo e w req) = respond 200 (demo_json (params_id req, D))
          \<and> body_field (body (fst (get_demo e w req))) ''views'' = Some (JNum (demo_views D))
          \<and> map_of (demos (snd (get_demo e w req))) =
              (map_of (demos w))(params_id req \<mapsto> D\<lparr>demo_views := demo_views D + 1\<rparr>)
          \<and> map fst (demos (snd (get_demo e w req))) = map fst (demos w)
          \<and> users (snd (get_demo e w req)) = users w)
       \<and> ((\<forall>D. map_of (demos w) (params_id req) = Some D \<longrightarrow> demo_userId D \<noteq> userId au) \<longrightarrow>
            get_demo e w req = (respond 404 (message ''Demo not found''), w))"
proof (intro conjI allI impI)
  fix D
  assume D: "map_of (demos w) (params_id req) = Some D \<and> demo_userId D = userId au"
  then have run: "get_demo e w req =
      (respond 200 (demo_json (params_id req, D)),
       w\<lparr>demos := AList.update (params_id req) (D\<lparr>demo_views := demo_views D + 1\<rparr>) (demos w)\<rparr>)"
    using auth up by (simp add: get_demo_def demo_findFirst_ok demo_increment_views_ok)
  show "fst (get_demo e w req) = respond 200 (demo_json (params_id req, D))"
    by (simp add: run)
  show "body_field (body (fst (get_demo e w req))) ''views'' = Some (JNum (demo_views D))"
    by (simp add: run respond_def demo_json_def body_field_def)
  show "map_of (demos (snd (get_demo e w req))) =
          (map_of (demos w))(params_id req \<mapsto> D\<lparr>demo_views := demo_views D + 1\<rparr>)"
    by (simp add: run update_conv')
  show "map fst (demos (snd (get_demo e w req))) = map fst (demos w)"
    using D by (simp add: run update_present_keys)
  show "users (snd (get_demo e w req)) = users w"
    by (simp add: run)
next
  assume "\<forall>D. map_of (demos w) (params_id req) = Some D \<longrightarrow> demo_userId D \<noteq> userId au"
  then show "get_demo e w req = (respond 404 (message ''Demo not found''), w)"
    using auth up by (auto simp: get_demo_def demo_findFirst_ok split: option.splits)
qed

theorem get_demo_counts_view_witness:
  "user (request_of ''u1'' ''d1'' (JObj [])) = Some \<lparr>userId = ''u1''\<rparr>
   \<and> db_faults world0 = []
   \<and> map_of (demos world0) ''d1'' = Some demo1
   \<and> demo_userId demo1 = ''u1''
   \<and> demo_views demo1 = 5
   \<and> body_field (body (fst (get_demo env0 world0 (request_of ''u1'' ''d1'' (JObj []))))) ''views'' =
       Some (JNum 5)
   \<and> map_of (demos (snd (get_demo env0 world0 (request_of ''u1'' ''d1'' (JObj []))))) ''d1'' =
       Some (demo1\<lparr>demo_views := 6\<rparr>)
   \<and> map_of (demos world0) ''d9'' = None
   \<and> get_demo env0 world0 (request_of ''u1'' ''d9'' (JObj [])) =
       (respond 404 (message ''Demo not found''), world0)"
  using get_demo_counts_view [of "request_of ''u1'' ''d1'' (JObj [])" "\<lparr>userId = ''u1''\<rparr>" world0 env0]
    get_demo_counts_view [of "request_of ''u1'' ''d9'' (JObj [])" "\<lparr>userId = ''u1''\<rparr>" world0 env0]
  by (simp add: world0_def request_of_def demo1_def respond_def demo_json_def body_field_def)

subsection \<open>Login\<close>

lemma signinSchema_Some:
  "signinSchema e b = Some d \<Longrightarrow>
   body_field b ''email'' = Some (JStr (si_email d)) \<and> is_email e (si_email d)
   \<and> body_field b ''password'' = Some (JStr (si_password d))"
  by (auto simp: signinSchema_def zod_email_def zod_string_def
           split: if_splits option.splits json.splits prod.splits)

text \<open>
  C3. Let the body pass the sign-in schema, with parsed data \<open>d\<close>, and let the database
  answer. If the user found by the email has the password of the request, the answer is 200
  with the token signed for that user's identifier. If no user has the email, or the user
  found has another password, the answer is 401 "Invalid email or password", and the state
  is unchanged. The last part compares two runs: a rejected login for an unknown email and
  a rejected login for a wrong password, in any two states, have the same response.
\<close>

theorem login_contract:
  assumes valid: "signinSchema e (req_body req) = Some d" and up: "db_faults w = []"
  shows "(\<forall>uid u. find (\<lambda>(i, u). user_email u = si_email d) (users w) = Some (uid, u)
                 \<and> user_password u = si_password d \<longrightarrow>
            post_auth_login e w req = (respond 200 (JObj [(''token'', JStr (jwt_sign e uid))]), w))
       \<and> (find (\<lambda>(i, u). user_email u = si_email d) (users w) = None
          \<or> (\<exists>uid u. find (\<lambda>(i, u). user_email u = si_email d) (users w) = Some (uid, u)
                    \<and> user_password u \<noteq> si_password d) \<longrightarrow>
            post_auth_login e w req = (respond 401 (message ''Invalid email or password''), w))
       \<and> (\<forall>e' w' req' d' uid u.
            find (\<lambda>(i, u). user_email u = si_email d) (users w) = None
          \<and> signinSchema e' (req_body req') = Some d' \<and> db_faults w' = []
          \<and> find (\<lambda>(i, u). user_email u = si_email d') (users w') = Some (uid, u)
          \<and> user_password u \<noteq> si_password d' \<longrightarrow>
            fst (post_auth_login e w req) = fst (post_auth_login e' w' req'))"
  using valid up
  by (auto simp: post_auth_login_def user_findUnique_email_ok)

lemma signin_example:
  "CHR ''@'' \<in> set em \<Longrightarrow>
   signinSchema env0 (credentials em pw) = Some \<lparr>si_email = em, si_password = pw\<rparr>"
  by (simp add: signinSchema_def credentials_def is_object_def body_field_def zod_email_def
        zod_string_def env0_def)

theorem login_contract_witness:
  "signinSchema env0 (req_body (anonymous (credentials ''a@x.com'' ''p''))) =
     Some \<lparr>si_email = ''a@x.com'', si_password = ''p''\<rparr>
   \<and> db_faults world0 = []
   \<and> find (\<lambda>(i, u). user_email u = ''a@x.com'') (users world0) = Some (''u1'', ann)
   \<and> user_password ann = ''p''
   \<and> post_auth_login env0 world0 (anonymous (credentials ''a@x.com'' ''p'')) =
       (respond 200 (JObj [(''token'', JStr (jwt_sign env0 ''u1''))]), world0)
   \<and> signinSchema env0 (req_body (anonymous (credentials ''a@x.com'' ''wrong''))) =
       Some \<lparr>si_email = ''a@x.com'', si_password = ''wrong''\<rparr>
   \<and> post_auth_login env0 world0 (anonymous (credentials ''a@x.com'' ''wrong'')) =
       (respond 401 (message ''Invalid email or password''), world0)
   \<and> signinSchema env0 (req_body (anonymous (credentials ''nobody@x.com'' ''p''))) =
       Some \<lparr>si_email = ''nobody@x.com'', si_password = ''p''\<rparr>
   \<and> find (\<lambda>(i, u). user_email u = ''nobody@x.com'') (users world0) = None
   \<and> fst (post_auth_login env0 world0 (anonymous (credentials ''nobody@x.com'' ''p''))) =
       fst (post_auth_login env0 world0 (anonymous (credentials ''a@x.com'' ''wrong'')))"
  using
    login_contract [of env0 "anonymous (credentials ''a@x.com'' ''p'')"
      "\<lparr>si_email = ''a@x.com'', si_password = ''p''\<rparr>" world0]
    login_contract [of env0 "anonymous (credentials ''a@x.com'' ''wrong'')"
      "\<lparr>si_email = ''a@x.com'', si_password = ''wrong''\<rparr>" world0]
    login_contract [of env0 "anonymous (credentials ''nobody@x.com'' ''p'')"
      "\<lparr>si_email = ''nobody@x.com'', si_password = ''p''\<rparr>" world0]
  by (simp add: signin_example anonymous_def world0_def ann_def bob_def)

subsection \<open>Updating a demo\<close>

text \<open>What a payload that passes the demo schema looks like, field by field.\<close>

lemma demoSchema_required:
  "demoSchema b = Some p \<Longrightarrow>
   body_field b ''title'' = Some (JStr (dd_title p)) \<and> 1 \<le> length (dd_title p)
   \<and> body_field b ''description'' = Some (JStr (dd_description p))
   \<and> body_field b ''type'' = Some (JStr (dd_type p))
   \<and> body_field b ''content'' = Some (JStr (dd_content p))"
  by (auto simp: demoSchema_def zod_string_def
           split: if_splits option.splits json.splits prod.splits)

lemma demoSchema_optional:
  "demoSchema b = Some p \<Longrightarrow>
   (case body_field b ''thumbnail'' of None \<Rightarrow> dd_thumbnail p = None
    | Some v \<Rightarrow> \<exists>s. v = JStr s \<and> dd_thumbnail p = Some s)
   \<and> (case body_field b ''url'' of None \<Rightarrow> dd_url p = None
    | Some v \<Rightarrow> \<exists>s. v = JStr s \<and> dd_url p = Some s)
   \<and> (case body_field b ''isPublic'' of None \<Rightarrow> dd_isPublic p = False
    | Some v \<Rightarrow> v = JBool (dd_isPublic p))"
  by (auto simp: demoSchema_def zod_string_optional_def zod_boolean_default_def
           split: if_splits option.splits json.splits prod.splits)

lemma demo_update_ok:
  assumes "db_faults w = []" "demoSchema b = Some p" "map_of (demos w) i = Some D"
  shows "demo_update i (destructure b) w =
     (let row = D\<lparr>demo_title := dd_title p, demo_description := dd_description p,
                  demo_type := dd_type p, demo_content := dd_content p,
                  demo_thumbnail :=
                    (case body_field b ''thumbnail'' of None \<Rightarrow> demo_thumbnail D
                     | Some v \<Rightarrow> dd_thumbnail p),
                  demo_url :=
                    (case body_field b ''url'' of None \<Rightarrow> demo_url D | Some v \<Rightarrow> dd_url p),
                  demo_isPublic :=
                    (case body_field b ''isPublic'' of None \<Rightarrow> demo_isPublic D
                     | Some v \<Rightarrow> dd_isPublic p)\<rparr>
      in (Inr (i, row), w\<lparr>demos := AList.update i row (demos w)\<rparr>))"
  using assms(1,3) demoSchema_required [OF assms(2)] demoSchema_optional [OF assms(2)]
  by (auto simp: demo_update_def destructure_def db_call_ok required_string_def
        nullable_string_def required_bool_def Let_def split: option.splits)


text \<open>
  C4, as the code has it. Let the payload pass the demo schema, with parsed data \<open>p\<close>, let
  the demo belong to the caller and the database answer. The update stores title,
  description, type and content of the payload, and the thumbnail, the url and the public
  flag of the payload where the payload has them; a thumbnail or url that the payload
  leaves out keeps its stored value. Views, owner and creation time stay, and the response
  is the new row.
\<close>

theorem put_demo_overwrites:
  assumes auth: "user req = Some au" and valid: "demoSchema (req_body req) = Some p"
    and own: "map_of (demos w) (params_id req) = Some D" "demo_userId D = userId au"
    and up: "db_faults w = []"
  shows "\<exists>D'. fst (put_demo e w req) = respond 200 (demo_json (params_id req, D'))
          \<and> map_of (demos (snd (put_demo e w req))) = (map_of (demos w))(params_id req \<mapsto> D')
          \<and> demo_title D' = dd_title p \<and> demo_description D' = dd_description p
          \<and> demo_type D' = dd_type p \<and> demo_content D' = dd_content p
          \<and> (body_field (req_body req) ''thumbnail'' \<noteq> None \<longrightarrow>
                demo_thumbnail D' = dd_thumbnail p)
          \<and> (body_field (req_body req) ''thumbnail'' = None \<longrightarrow>
                demo_thumbnail D' = demo_thumbnail D)
          \<and> (body_field (req_body req) ''url'' \<noteq> None \<longrightarrow> demo_url D' = dd_url p)
          \<and> (body_field (req_body req) ''url'' = None \<longrightarrow> demo_url D' = demo_url D)
          \<and> (body_field (req_body req) ''isPublic'' \<noteq> None \<longrightarrow>
                demo_isPublic D' = dd_isPublic p)
          \<and> demo_views D' = demo_views D \<and> demo_userId D' = demo_userId D
          \<and> demo_createdAt D' = demo_createdAt D"
proof -
  let ?b = "req_body req"
  let ?D' = "D\<lparr>demo_title := dd_title p, demo_description := dd_description p,
                demo_type := dd_type p, demo_content := dd_content p,
                demo_thumbnail :=
                  (case body_field ?b ''thumbnail'' of None \<Rightarrow> demo_thumbnail D
                   | Some v \<Rightarrow> dd_thumbnail p),
                demo_url :=
                  (case body_field ?b ''url'' of None \<Rightarrow> demo_url D | Some v \<Rightarrow> dd_url p),
                demo_isPublic :=
                  (case body_field ?b ''isPublic'' of None \<Rightarrow> demo_isPublic D
                   | Some v \<Rightarrow> dd_isPublic p)\<rparr>"
  have run: "put_demo e w req =
      (respond 200 (demo_json (params_id req, ?D')),
       w\<lparr>demos := AList.update (params_id req) ?D' (demos w)\<rparr>)"
    using auth valid own up
    by (simp add: put_demo_def demo_findFirst_ok demo_update_ok [OF up valid own(1)] Let_def)
  show ?thesis
    by (rule exI [of _ ?D']) (auto simp: run update_conv')
qed

lemma demoSchema_payload0: "demoSchema payload0 = Some parsed0"
  by (simp add: demoSchema_def payload0_def parsed0_def is_object_def body_field_def
        zod_string_def zod_string_optional_def zod_boolean_default_def)

lemma payload0_optional:
  "body_field payload0 ''thumbnail'' = None \<and> body_field payload0 ''url'' = None
   \<and> body_field payload0 ''isPublic'' = None"
  by (simp add: payload0_def body_field_def)

theorem put_demo_overwrites_witness:
  "user (request_of ''u1'' ''d1'' payload0) = Some \<lparr>userId = ''u1''\<rparr>
   \<and> demoSchema (req_body (request_of ''u1'' ''d1'' payload0)) = Some parsed0
   \<and> map_of (demos world0) (params_id (request_of ''u1'' ''d1'' payload0)) = Some demo1
   \<and> demo_userId demo1 = userId \<lparr>userId = ''u1''\<rparr>
   \<and> db_faults world0 = []
   \<and> (\<exists>D'. fst (put_demo env0 world0 (request_of ''u1'' ''d1'' payload0)) =
               respond 200 (demo_json (''d1'', D'))
           \<and> map_of (demos (snd (put_demo env0 world0 (request_of ''u1'' ''d1'' payload0)))) ''d1'' =
               Some D'
           \<and> demo_title D' = ''New'' \<and> demo_thumbnail D' = Some ''t.png'' \<and> demo_views D' = 5)"
proof -
  let ?r = "request_of ''u1'' ''d1'' payload0"
  have h: "user ?r = Some \<lparr>userId = ''u1''\<rparr>"
    "demoSchema (req_body ?r) = Some parsed0"
    "map_of (demos world0) (params_id ?r) = Some demo1"
    "demo_userId demo1 = userId \<lparr>userId = ''u1''\<rparr>"
    "db_faults world0 = []"
    by (simp_all add: request_of_def demoSchema_payload0 world0_def demo1_def)
  have absent: "body_field (req_body ?r) ''thumbnail'' = None"
    using payload0_optional by (simp add: request_of_def)
  have i: "params_id ?r = ''d1''"
    by (simp add: request_of_def)
  have "\<exists>D'. fst (put_demo env0 world0 ?r) = respond 200 (demo_json (''d1'', D'))
           \<and> map_of (demos (snd (put_demo env0 world0 ?r))) ''d1'' = Some D'
           \<and> demo_title D' = ''New'' \<and> demo_thumbnail D' = Some ''t.png'' \<and> demo_views D' = 5"
    using put_demo_overwrites [OF h, of env0] absent
    unfolding i by (auto simp: parsed0_def demo1_def)
  then show ?thesis using h by blast
qed

text \<open>
  C4 as stated fails where the payload leaves an optional field out: the owner updates the
  demo \<open>d1\<close>, whose thumbnail is \<open>t.png\<close>, with a payload without thumbnail. The payload
  passes the schema, its thumbnail is \<open>undefined\<close>, and the stored thumbnail is still
  \<open>t.png\<close> after the update.
\<close>

theorem put_demo_keeps_absent_thumbnail:
  "demoSchema payload0 = Some parsed0
   \<and> dd_thumbnail parsed0 = None
   \<and> body_field payload0 ''thumbnail'' = None
   \<and> map_of (demos world0) ''d1'' = Some demo1
   \<and> demo_userId demo1 = ''u1''
   \<and> status (fst (put_demo env0 world0 (request_of ''u1'' ''d1'' payload0))) = 200
   \<and> map_option demo_thumbnail
        (map_of (demos (snd (put_demo env0 world0 (request_of ''u1'' ''d1'' payload0)))) ''d1'') =
       Some (Some ''t.png'')
   \<and> map_option demo_thumbnail
        (map_of (demos (snd (put_demo env0 world0 (request_of ''u1'' ''d1'' payload0)))) ''d1'') \<noteq>
       Some (dd_thumbnail parsed0)"
proof -
  have up: "db_faults world0 = []" and D: "map_of (demos world0) ''d1'' = Some demo1"
    by (simp_all add: world0_def)
  have "put_demo env0 world0 (request_of ''u1'' ''d1'' payload0) =
      (respond 200 (demo_json (''d1'', demo1\<lparr>demo_title := ''New'', demo_description := ''d'',
           demo_type := ''t'', demo_content := ''c''\<rparr>)),
       world0\<lparr>demos := AList.update ''d1'' (demo1\<lparr>demo_title := ''New'',
           demo_description := ''d'', demo_type := ''t'', demo_content := ''c''\<rparr>) (demos world0)\<rparr>)"
    using up D
    by (simp add: put_demo_def request_of_def demoSchema_payload0 demo_findFirst_ok
          demo_update_ok [OF up demoSchema_payload0 D] payload0_optional Let_def)
       (simp add: demo1_def parsed0_def)
  then show ?thesis
    using D by (simp add: demoSchema_payload0 payload0_optional respond_def update_conv')
                (simp add: parsed0_def demo1_def)
qed

subsection \<open>Signup\<close>

lemma signupSchema_Some:
  "signupSchema e b = Some d \<Longrightarrow>
   body_field b ''name'' = Some (JStr (su_name d)) \<and> 3 \<le> length (su_name d)
   \<and> body_field b ''email'' = Some (JStr (su_email d)) \<and> is_email e (su_email d)
   \<and> body_field b ''password'' = Some (JStr (su_password d))"
  by (auto simp: signupSchema_def zod_email_def zod_string_def
           split: if_splits option.splits json.splits prod.splits)

text \<open>
  C6, as the code has it. The handler checks the schema, then the confirmation, and only
  then looks the email up. So for a request that passes the signup schema and whose
  \<open>confirmPassword\<close> equals its password, a registered email gives 411 "Email already
  taken" and the state is unchanged (the database answering); a request that fails the
  schema, or whose confirmation differs, is rejected as invalid whether or not its email is
  registered.
\<close>

theorem signup_duplicate_email:
  assumes up: "db_faults w = []"
  shows "(\<forall>d x. signupSchema e (req_body req) = Some d
               \<and> body_field (req_body req) ''confirmPassword'' =
                   body_field (req_body req) ''password''
               \<and> find (\<lambda>(i, u). user_email u = su_email d) (users w) = Some x \<longrightarrow>
            post_auth_signup e w req = (respond 411 (message ''Email already taken''), w))
       \<and> (signupSchema e (req_body req) = None \<longrightarrow>
            post_auth_signup e w req = (respond 411 (message ''Invalid input data''), w))
       \<and> (signupSchema e (req_body req) \<noteq> None
          \<and> body_field (req_body req) ''confirmPassword'' \<noteq>
              body_field (req_body req) ''password'' \<longrightarrow>
            post_auth_signup e w req = (respond 411 (message ''Passwords do not match''), w))"
proof (intro conjI allI impI)
  fix d x
  assume a: "signupSchema e (req_body req) = Some d
               \<and> body_field (req_body req) ''confirmPassword'' =
                   body_field (req_body req) ''password''
               \<and> find (\<lambda>(i, u). user_email u = su_email d) (users w) = Some x"
  then have em: "body_field (req_body req) ''email'' = Some (JStr (su_email d))"
    using signupSchema_Some by blast
  show "post_auth_signup e w req = (respond 411 (message ''Email already taken''), w)"
    using a up by (simp add: post_auth_signup_def em user_findUnique_email_ok)
next
  assume "signupSchema e (req_body req) = None"
  then show "post_auth_signup e w req = (respond 411 (message ''Invalid input data''), w)"
    by (simp add: post_auth_signup_def)
next
  assume "signupSchema e (req_body req) \<noteq> None
          \<and> body_field (req_body req) ''confirmPassword'' \<noteq>
              body_field (req_body req) ''password''"
  then show "post_auth_signup e w req = (respond 411 (message ''Passwords do not match''), w)"
    by (auto simp: post_auth_signup_def)
qed

lemma signup_example:
  "signupSchema env0 (signup_body ''Ann'' ''a@x.com'' ''p'' c) =
     Some \<lparr>su_name = ''Ann'', su_email = ''a@x.com'', su_password = ''p''\<rparr>"
  by (simp add: signupSchema_def signup_body_def is_object_def body_field_def zod_email_def
        zod_string_def env0_def)

theorem signup_duplicate_email_witness:
  "db_faults world0 = []
   \<and> signupSchema env0 (req_body (anonymous (signup_body ''Ann'' ''a@x.com'' ''p'' ''p''))) =
       Some \<lparr>su_name = ''Ann'', su_email = ''a@x.com'', su_password = ''p''\<rparr>
   \<and> body_field (req_body (anonymous (signup_body ''Ann'' ''a@x.com'' ''p'' ''p''))) ''confirmPassword'' =
       body_field (req_body (anonymous (signup_body ''Ann'' ''a@x.com'' ''p'' ''p''))) ''password''
   \<and> find (\<lambda>(i, u). user_email u = ''a@x.com'') (users world0) = Some (''u1'', ann)
   \<and> post_auth_signup env0 world0 (anonymous (signup_body ''Ann'' ''a@x.com'' ''p'' ''p'')) =
       (respond 411 (message ''Email already taken''), world0)
   \<and> signupSchema env0 (req_body (anonymous (JObj []))) = None
   \<and> post_auth_signup env0 world0 (anonymous (JObj [])) =
       (respond 411 (message ''Invalid input data''), world0)"
  using
    signup_duplicate_email [of world0 env0 "anonymous (signup_body ''Ann'' ''a@x.com'' ''p'' ''p'')"]
    signup_duplicate_email [of world0 env0 "anonymous (JObj [])"]
  by (simp add: signup_example anonymous_def world0_def ann_def)
     (simp add: signup_body_def body_field_def signupSchema_def is_object_def zod_string_def)

text \<open>
  C6 as stated fails: \<open>a@x.com\<close> is registered, and a signup with that email whose
  confirmation differs from the password is answered "Passwords do not match", which is
  the validation error and not the conflict.
\<close>

theorem signup_mismatch_before_conflict:
  "map_of (users world0) ''u1'' = Some ann
   \<and> user_email ann = ''a@x.com''
   \<and> body_field (signup_body ''Ann'' ''a@x.com'' ''p'' ''q'') ''email'' = Some (JStr ''a@x.com'')
   \<and> post_auth_signup env0 world0 (anonymous (signup_body ''Ann'' ''a@x.com'' ''p'' ''q'')) =
       (respond 411 (message ''Passwords do not match''), world0)
   \<and> fst (post_auth_signup env0 world0 (anonymous (signup_body ''Ann'' ''a@x.com'' ''p'' ''q''))) \<noteq>
       respond 411 (message ''Email already taken'')"
  by (simp add: post_auth_signup_def signup_example anonymous_def world0_def ann_def)
     (simp add: signup_body_def body_field_def respond_def message_def)

subsection \<open>The middleware\<close>

lemma split_nonempty: "split c xs \<noteq> []"
  by (induction xs) (auto split: list.splits)

lemma split_other: "x \<noteq> c \<Longrightarrow> split c (x # xs) = (x # hd (split c xs)) # tl (split c xs)"
  using split_nonempty [of c xs] by (cases "split c xs") auto

lemma hd_split: "hd (split c xs) = takeWhile (\<lambda>x. x \<noteq> c) xs"
  by (induction xs) (auto simp: split_nonempty split: list.splits)

lemma split_Bearer: "split CHR '' '' (''Bearer '' @ rest) = ''Bearer'' # split CHR '' '' rest"
  by (simp add: split_other del: split.simps(2)) simp

text \<open>The token that the middleware takes from a header that starts with \<open>Bearer \<close>.\<close>

lemma bearer_token:
  "index (split CHR '' '' (''Bearer '' @ rest)) 1 = Some (takeWhile (\<lambda>x. x \<noteq> CHR '' '') rest)"
proof -
  obtain p ps where "split CHR '' '' rest = p # ps"
    using split_nonempty [of "CHR '' ''" rest] by (cases "split CHR '' '' rest") auto
  then show ?thesis
    using hd_split [of "CHR '' ''" rest] by (simp add: split_Bearer index_def)
qed

lemma authenticateToken_Bearer:
  "authorization req = Some (''Bearer '' @ rest) \<Longrightarrow>
   authenticateToken e req =
     (if takeWhile (\<lambda>x. x \<noteq> CHR '' '') rest = []
      then Inl (respond 401 (message ''Authentication required''))
      else (case jwt_verify e (takeWhile (\<lambda>x. x \<noteq> CHR '' '') rest) of
              Inl err \<Rightarrow> Inl (respond 403 (message ''Invalid or expired token''))
            | Inr u \<Rightarrow> Inr (req\<lparr>user := Some \<lparr>userId = userId u\<rparr>\<rparr>)))"
  using bearer_token [of rest]
  by (simp add: authenticateToken_def del: append.simps split.simps)

text \<open>
  C7. The token of a header \<open>Bearer rest\<close> is \<open>rest\<close> up to its first space. If the header
  is absent, does not start with \<open>Bearer \<close>, or has an empty token, the middleware answers
  401 "Authentication required"; if \<open>jwt.verify\<close> reports an error it answers 403 "Invalid
  or expired token"; in both cases the route returns that response with the state as it
  was, not even a database call having been made. Otherwise the request goes to the
  handler with \<open>user\<close> set to the identifier that \<open>jwt.verify\<close> decoded and nothing else
  changed, and the route is the handler on that request and the same state.
\<close>

theorem authenticateToken_contract:
  "(authorization req = None
    \<or> (\<exists>h. authorization req = Some h \<and> \<not> prefix ''Bearer '' h)
    \<or> (\<exists>rest. authorization req = Some (''Bearer '' @ rest)
             \<and> takeWhile (\<lambda>x. x \<noteq> CHR '' '') rest = []) \<longrightarrow>
      authenticateToken e req = Inl (respond 401 (message ''Authentication required''))
    \<and> protected handler e w req = (respond 401 (message ''Authentication required''), w))
   \<and> (\<forall>rest err. authorization req = Some (''Bearer '' @ rest)
          \<and> takeWhile (\<lambda>x. x \<noteq> CHR '' '') rest \<noteq> []
          \<and> jwt_verify e (takeWhile (\<lambda>x. x \<noteq> CHR '' '') rest) = Inl err \<longrightarrow>
        authenticateToken e req = Inl (respond 403 (message ''Invalid or expired token''))
      \<and> protected handler e w req = (respond 403 (message ''Invalid or expired token''), w))
   \<and> (\<forall>rest u. authorization req = Some (''Bearer '' @ rest)
          \<and> takeWhile (\<lambda>x. x \<noteq> CHR '' '') rest \<noteq> []
          \<and> jwt_verify e (takeWhile (\<lambda>x. x \<noteq> CHR '' '') rest) = Inr u \<longrightarrow>
        authenticateToken e req = Inr (req\<lparr>user := Some \<lparr>userId = userId u\<rparr>\<rparr>)
      \<and> protected handler e w req = handler e w (req\<lparr>user := Some \<lparr>userId = userId u\<rparr>\<rparr>))"
proof (intro conjI allI impI)
  assume a: "authorization req = None
    \<or> (\<exists>h. authorization req = Some h \<and> \<not> prefix ''Bearer '' h)
    \<or> (\<exists>rest. authorization req = Some (''Bearer '' @ rest)
             \<and> takeWhile (\<lambda>x. x \<noteq> CHR '' '') rest = [])"
  have r: "authenticateToken e req = Inl (respond 401 (message ''Authentication required''))"
    using a
  proof (elim disjE exE conjE)
    assume "authorization req = None"
    then show ?thesis by (simp add: authenticateToken_def)
  next
    fix h assume "authorization req = Some h" "\<not> prefix ''Bearer '' h"
    then show ?thesis by (simp add: authenticateToken_def)
  next
    fix rest
    assume "authorization req = Some (''Bearer '' @ rest)"
      "takeWhile (\<lambda>x. x \<noteq> CHR '' '') rest = []"
    then show ?thesis by (simp add: authenticateToken_Bearer del: append.simps)
  qed
  show "authenticateToken e req = Inl (respond 401 (message ''Authentication required''))"
    by (rule r)
  show "protected handler e w req = (respond 401 (message ''Authentication required''), w)"
    by (simp add: protected_def r)
next
  fix rest err
  assume a: "authorization req = Some (''Bearer '' @ rest)
          \<and> takeWhile (\<lambda>x. x \<noteq> CHR '' '') rest \<noteq> []
          \<and> jwt_verify e (takeWhile (\<lambda>x. x \<noteq> CHR '' '') rest) = Inl err"
  then have r: "authenticateToken e req = Inl (respond 403 (message ''Invalid or expired token''))"
    by (simp add: authenticateToken_Bearer del: append.simps)
  show "authenticateToken e req = Inl (respond 403 (message ''Invalid or expired token''))"
    by (rule r)
  show "protected handler e w req = (respond 403 (message ''Invalid or expired token''), w)"
    by (simp add: protected_def r)
next
  fix rest u
  assume a: "authorization req = Some (''Bearer '' @ rest)
          \<and> takeWhile (\<lambda>x. x \<noteq> CHR '' '') rest \<noteq> []
          \<and> jwt_verify e (takeWhile (\<lambda>x. x \<noteq> CHR '' '') rest) = Inr u"
  then have r: "authenticateToken e req = Inr (req\<lparr>user := Some \<lparr>userId = userId u\<rparr>\<rparr>)"
    by (simp add: authenticateToken_Bearer del: append.simps)
  show "authenticateToken e req = Inr (req\<lparr>user := Some \<lparr>userId = userId u\<rparr>\<rparr>)"
    by (rule r)
  show "protected handler e w req = handler e w (req\<lparr>user := Some \<lparr>userId = userId u\<rparr>\<rparr>)"
    by (simp add: protected_def r)
qed

theorem authenticateToken_contract_witness:
  "authorization (anonymous (JObj [])) = None
   \<and> protected get_demo env0 world0 (anonymous (JObj [])) =
       (respond 401 (message ''Authentication required''), world0)
   \<and> authorization (with_header ''Token jwt:u1'') = Some ''Token jwt:u1''
   \<and> \<not> prefix ''Bearer '' ''Token jwt:u1''
   \<and> protected get_demo env0 world0 (with_header ''Token jwt:u1'') =
       (respond 401 (message ''Authentication required''), world0)
   \<and> authorization (with_header ''Bearer xyz'') = Some (''Bearer '' @ ''xyz'')
   \<and> takeWhile (\<lambda>x. x \<noteq> CHR '' '') ''xyz'' = ''xyz''
   \<and> jwt_verify env0 ''xyz'' = Inl ''invalid signature''
   \<and> protected get_demo env0 world0 (with_header ''Bearer xyz'') =
       (respond 403 (message ''Invalid or expired token''), world0)
   \<and> authorization (with_header ''Bearer jwt:u1'') = Some (''Bearer '' @ ''jwt:u1'')
   \<and> takeWhile (\<lambda>x. x \<noteq> CHR '' '') ''jwt:u1'' = ''jwt:u1''
   \<and> jwt_verify env0 ''jwt:u1'' = Inr \<lparr>userId = ''u1''\<rparr>
   \<and> authenticateToken env0 (with_header ''Bearer jwt:u1'') =
       Inr ((with_header ''Bearer jwt:u1'')\<lparr>user := Some \<lparr>userId = ''u1''\<rparr>\<rparr>)"
proof -
  have a: "authorization (anonymous (JObj [])) = None"
    and b: "authorization (with_header ''Token jwt:u1'') = Some ''Token jwt:u1''"
      "\<not> prefix ''Bearer '' ''Token jwt:u1''"
    and c: "authorization (with_header ''Bearer xyz'') = Some (''Bearer '' @ ''xyz'')"
      "takeWhile (\<lambda>x. x \<noteq> CHR '' '') ''xyz'' = ''xyz''"
      "jwt_verify env0 ''xyz'' = Inl ''invalid signature''"
    and d: "authorization (with_header ''Bearer jwt:u1'') = Some (''Bearer '' @ ''jwt:u1'')"
      "takeWhile (\<lambda>x. x \<noteq> CHR '' '') ''jwt:u1'' = ''jwt:u1''"
      "jwt_verify env0 ''jwt:u1'' = Inr \<lparr>userId = ''u1''\<rparr>"
    by (simp_all add: anonymous_def with_header_def env0_def)
  have 1: "protected get_demo env0 world0 (anonymous (JObj [])) =
       (respond 401 (message ''Authentication required''), world0)"
    using authenticateToken_contract [of "anonymous (JObj [])" env0 get_demo world0] a by blast
  have 2: "protected get_demo env0 world0 (with_header ''Token jwt:u1'') =
       (respond 401 (message ''Authentication required''), world0)"
    using authenticateToken_contract [of "with_header ''Token jwt:u1''" env0 get_demo world0] b
    by blast
  have 3: "protected get_demo env0 world0 (with_header ''Bearer xyz'') =
       (respond 403 (message ''Invalid or expired token''), world0)"
    using authenticateToken_contract [of "with_header ''Bearer xyz''" env0 get_demo world0] c
    by (metis list.distinct(1))
  have 4: "authenticateToken env0 (with_header ''Bearer jwt:u1'') =
       Inr ((with_header ''Bearer jwt:u1'')\<lparr>user := Some \<lparr>userId = ''u1''\<rparr>\<rparr>)"
    using authenticateToken_contract [of "with_header ''Bearer jwt:u1''" env0 get_demo world0] d
    by (metis list.distinct(1) auth_user.select_convs(1))
  from a b c d 1 2 3 4 show ?thesis by blast
qed

subsection \<open>Image upload\<close>

lemma decimal_example: "decimal 1700000000000 = ''1700000000000''"
  by (simp add: decimal.simps)

lemma bucket_unset:
  "(R2_BUCKET_NAME e = []) =
   (process_env e ''CLOUDFLARE_R2_BUCKET_NAME'' = None
    \<or> process_env e ''CLOUDFLARE_R2_BUCKET_NAME'' = Some [])"
  by (auto simp: R2_BUCKET_NAME_def env_or_def split: option.splits)

text \<open>
  C8. Let the caller be authenticated. Without a file the answer is 400 "No image file
  provided"; with a file and no bucket name (the variable unset or empty) it is 500 "R2
  bucket name not configured"; in both cases nothing is sent. Otherwise one PutObject
  command goes to the storage, for the bucket, with the key
  \<open>uploads/<Date.now()>-<originalname>\<close>, the bytes and the type of the file. If the
  storage accepts it, the answer is 200 with the url \<open><R2_PUBLIC_URL>/<key>\<close>; if the
  call throws, the answer is 500 "Upload to R2 failed" with the message of the error, and
  the storage has received nothing.
\<close>

theorem upload_image_contract:
  assumes auth: "user req = Some au"
  shows "(req_file req = None \<longrightarrow>
            post_upload_image e w req = (respond 400 (message ''No image file provided''), w))
       \<and> (\<forall>f. req_file req = Some f
              \<and> (process_env e ''CLOUDFLARE_R2_BUCKET_NAME'' = None
                 \<or> process_env e ''CLOUDFLARE_R2_BUCKET_NAME'' = Some []) \<longrightarrow>
            post_upload_image e w req =
              (respond 500 (message ''R2 bucket name not configured''), w))
       \<and> (\<forall>f w'. req_file req = Some f \<and> R2_BUCKET_NAME e \<noteq> [] \<and> r2_call w = (None, w') \<longrightarrow>
            post_upload_image e w req =
              (respond 200
                 (JObj [(''url'',
                         JStr (R2_PUBLIC_URL e @ ''/'' @ ''uploads/'' @ decimal (date_now e) @ ''-''
                               @ originalname f))]),
               w'\<lparr>r2_sent := r2_sent w @
                  [\<lparr>Bucket = R2_BUCKET_NAME e,
                    Key = ''uploads/'' @ decimal (date_now e) @ ''-'' @ originalname f,
                    Body = buffer f, ContentType = mimetype f\<rparr>]\<rparr>))
       \<and> (\<forall>f m w'. req_file req = Some f \<and> R2_BUCKET_NAME e \<noteq> [] \<and> r2_call w = (Some m, w') \<longrightarrow>
            status (fst (post_upload_image e w req)) = 500
          \<and> body_field (body (fst (post_upload_image e w req))) ''message'' =
              Some (JStr ''Upload to R2 failed'')
          \<and> body_field (body (fst (post_upload_image e w req))) ''error'' = Some (JStr m)
          \<and> r2_sent (snd (post_upload_image e w req)) = r2_sent w)"
proof (intro conjI allI impI)
  assume "req_file req = None"
  then show "post_upload_image e w req = (respond 400 (message ''No image file provided''), w)"
    using auth by (simp add: post_upload_image_def upload_try_def)
next
  fix f
  assume "req_file req = Some f
              \<and> (process_env e ''CLOUDFLARE_R2_BUCKET_NAME'' = None
                 \<or> process_env e ''CLOUDFLARE_R2_BUCKET_NAME'' = Some [])"
  then have "req_file req = Some f" "R2_BUCKET_NAME e = []"
    by (simp_all add: bucket_unset)
  then show "post_upload_image e w req =
      (respond 500 (message ''R2 bucket name not configured''), w)"
    using auth by (simp add: post_upload_image_def upload_try_def)
next
  fix f w'
  assume a: "req_file req = Some f \<and> R2_BUCKET_NAME e \<noteq> [] \<and> r2_call w = (None, w')"
  then have "r2_sent w' = r2_sent w"
    by (auto simp: r2_call_def split: list.splits)
  then show "post_upload_image e w req =
      (respond 200
         (JObj [(''url'',
                 JStr (R2_PUBLIC_URL e @ ''/'' @ ''uploads/'' @ decimal (date_now e) @ ''-''
                       @ originalname f))]),
       w'\<lparr>r2_sent := r2_sent w @
          [\<lparr>Bucket = R2_BUCKET_NAME e,
            Key = ''uploads/'' @ decimal (date_now e) @ ''-'' @ originalname f,
            Body = buffer f, ContentType = mimetype f\<rparr>]\<rparr>)"
    using auth a by (simp add: post_upload_image_def upload_try_def r2_send_def upload_key_def Let_def)
next
  fix f m w'
  assume a: "req_file req = Some f \<and> R2_BUCKET_NAME e \<noteq> [] \<and> r2_call w = (Some m, w')"
  then have s: "r2_sent w' = r2_sent w"
    by (auto simp: r2_call_def split: list.splits)
  have run: "post_upload_image e w req =
      (respond 500
         (JObj [(''message'', JStr ''Upload to R2 failed''), (''error'', JStr m),
                (''details'',
                 JObj ((''bucket'', JStr (R2_BUCKET_NAME e)) #
                       (case process_env e ''CLOUDFLARE_R2_ENDPOINT'' of
                          None \<Rightarrow> []
                        | Some ep \<Rightarrow> [(''endpoint'', JStr ep)])))]), w')"
    using auth a by (simp add: post_upload_image_def upload_try_def r2_send_def Let_def)
  show "status (fst (post_upload_image e w req)) = 500"
    by (simp add: run respond_def)
  show "body_field (body (fst (post_upload_image e w req))) ''message'' =
          Some (JStr ''Upload to R2 failed'')"
    by (simp add: run respond_def body_field_def)
  show "body_field (body (fst (post_upload_image e w req))) ''error'' = Some (JStr m)"
    by (simp add: run respond_def body_field_def)
  show "r2_sent (snd (post_upload_image e w req)) = r2_sent w"
    by (simp add: run s)
qed

lemma bucket_example: "R2_BUCKET_NAME env0 = ''arcade''"
  by (simp add: R2_BUCKET_NAME_def env_or_def env0_def)

theorem upload_image_contract_witness:
  "user (upload_of ''u1'' None) = Some \<lparr>userId = ''u1''\<rparr>
   \<and> req_file (upload_of ''u1'' None) = None
   \<and> post_upload_image env0 world0 (upload_of ''u1'' None) =
       (respond 400 (message ''No image file provided''), world0)
   \<and> user (upload_of ''u1'' (Some png)) = Some \<lparr>userId = ''u1''\<rparr>
   \<and> req_file (upload_of ''u1'' (Some png)) = Some png
   \<and> process_env (env0\<lparr>process_env := Map.empty\<rparr>) ''CLOUDFLARE_R2_BUCKET_NAME'' = None
   \<and> post_upload_image (env0\<lparr>process_env := Map.empty\<rparr>) world0 (upload_of ''u1'' (Some png)) =
       (respond 500 (message ''R2 bucket name not configured''), world0)
   \<and> R2_BUCKET_NAME env0 = ''arcade''
   \<and> r2_call world0 = (None, world0)
   \<and> fst (post_upload_image env0 world0 (upload_of ''u1'' (Some png))) =
       respond 200 (JObj [(''url'',
         JStr ''https://pub-3f302ea423334407b3183fceb59dece7.r2.dev/uploads/42-a.png'')])
   \<and> r2_sent (snd (post_upload_image env0 world0 (upload_of ''u1'' (Some png)))) =
       [\<lparr>Bucket = ''arcade'', Key = ''uploads/42-a.png'', Body = [137, 80],
         ContentType = ''image/png''\<rparr>]
   \<and> r2_call (world0\<lparr>r2_faults := [Some ''timeout'']\<rparr>) = (Some ''timeout'', world0)
   \<and> status (fst (post_upload_image env0 (world0\<lparr>r2_faults := [Some ''timeout'']\<rparr>)
                    (upload_of ''u1'' (Some png)))) = 500
   \<and> r2_sent (snd (post_upload_image env0 (world0\<lparr>r2_faults := [Some ''timeout'']\<rparr>)
                    (upload_of ''u1'' (Some png)))) = []"
proof -
  have d: "decimal 42 = ''42''"
    by (simp add: decimal.simps)
  have c: "r2_call world0 = (None, world0)"
    "r2_call (world0\<lparr>r2_faults := [Some ''timeout'']\<rparr>) = (Some ''timeout'', world0)"
    by (simp_all add: r2_call_def world0_def)
  have u: "R2_PUBLIC_URL env0 = ''https://pub-3f302ea423334407b3183fceb59dece7.r2.dev''"
    by (simp add: R2_PUBLIC_URL_def env_or_def env0_def)
  show ?thesis
    using upload_image_contract [of "upload_of ''u1'' None" "\<lparr>userId = ''u1''\<rparr>" env0 world0]
      upload_image_contract [of "upload_of ''u1'' (Some png)" "\<lparr>userId = ''u1''\<rparr>"
        "env0\<lparr>process_env := Map.empty\<rparr>" world0]
      upload_image_contract [of "upload_of ''u1'' (Some png)" "\<lparr>userId = ''u1''\<rparr>" env0 world0]
      upload_image_contract [of "upload_of ''u1'' (Some png)" "\<lparr>userId = ''u1''\<rparr>" env0
        "world0\<lparr>r2_faults := [Some ''timeout'']\<rparr>"]
    by (simp add: c bucket_example u upload_of_def)
       (simp add: png_def env0_def d world0_def)
qed

subsection \<open>Creating a demo\<close>

lemma demo_create_ok:
  assumes "db_faults w = []" "demoSchema b = Some p" "map_of (users w) uid \<noteq> None"
    "map_of (demos w) (db_new_id e) = None"
    "(case body_field b ''isPublic'' of None \<Rightarrow> isPublic_default e
      | Some v \<Rightarrow> Some (dd_isPublic p)) = Some pub"
  shows "demo_create e (destructure b) views uid w =
     (let row = \<lparr>demo_title = dd_title p, demo_description = dd_description p,
                 demo_type = dd_type p, demo_content = dd_content p,
                 demo_thumbnail = dd_thumbnail p, demo_url = dd_url p, demo_isPublic = pub,
                 demo_views = views, demo_userId = uid, demo_createdAt = db_now e\<rparr>
      in (Inr (db_new_id e, row), w\<lparr>demos := demos w @ [(db_new_id e, row)]\<rparr>))"
  using assms(1,3,4,5) demoSchema_required [OF assms(2)] demoSchema_optional [OF assms(2)]
  by (auto simp: demo_create_def destructure_def db_call_ok required_string_def
        nullable_string_def required_bool_def Let_def update_fresh split: option.splits)

lemma demo_create_no_default:
  assumes "db_faults w = []" "demoSchema b = Some p" "body_field b ''isPublic'' = None"
    "isPublic_default e = None"
  shows "demo_create e (destructure b) views uid w = (Inl ''PrismaClientValidationError'', w)"
  using assms(1,3,4) demoSchema_required [OF assms(2)] demoSchema_optional [OF assms(2)]
  by (auto simp: demo_create_def destructure_def db_call_ok required_string_def
        nullable_string_def required_bool_def Let_def split: option.splits)


lemma users_example: "map_of (users world0) ''u1'' = Some ann"
  by (simp add: world0_def)

lemma fresh_example: "map_of (demos world0) (db_new_id env0) = None"
  by (simp add: world0_def env0_def)




text \<open>
  C10. Let the caller be authenticated and the payload pass the demo schema without the
  field \<open>isPublic\<close>. The data that \<open>safeParse\<close> returns has the flag \<open>false\<close>, the default
  of the schema, but the handler passes the \<open>isPublic\<close> of the raw body, which is
  \<open>undefined\<close>, to \<open>prisma.demo.create\<close>. So the default of the schema does not reach the
  row: when the database does its part, the stored flag is the default \<open>b\<close> of the column,
  whatever \<open>b\<close> is, and when the column has no default the creation fails with 500 and
  nothing is stored.
\<close>

theorem post_demos_ignores_schema_default:
  assumes auth: "user req = Some au" and valid: "demoSchema (req_body req) = Some p"
    and omitted: "body_field (req_body req) ''isPublic'' = None"
  shows "dd_isPublic p = False
       \<and> f_isPublic (destructure (req_body req)) = None
       \<and> (\<forall>b. isPublic_default e = Some b \<and> db_faults w = []
              \<and> map_of (users w) (userId au) \<noteq> None \<and> map_of (demos w) (db_new_id e) = None \<longrightarrow>
            (\<exists>row. post_demos e w req =
                     (respond 201 (demo_json (db_new_id e, row)),
                      w\<lparr>demos := demos w @ [(db_new_id e, row)]\<rparr>)
                 \<and> demo_isPublic row = b))
       \<and> (isPublic_default e = None \<and> db_faults w = [] \<longrightarrow>
            post_demos e w req = (respond 500 (message ''Internal server error''), w))"
proof (intro conjI allI impI)
  show "dd_isPublic p = False"
    using demoSchema_optional [OF valid] omitted by simp
  show "f_isPublic (destructure (req_body req)) = None"
    using omitted by (simp add: destructure_def)
next
  fix b
  assume a: "isPublic_default e = Some b \<and> db_faults w = []
              \<and> map_of (users w) (userId au) \<noteq> None \<and> map_of (demos w) (db_new_id e) = None"
  then have pv: "(case body_field (req_body req) ''isPublic'' of None \<Rightarrow> isPublic_default e
      | Some v \<Rightarrow> Some (dd_isPublic p)) = Some b"
    using omitted by simp
  let ?row = "\<lparr>demo_title = dd_title p, demo_description = dd_description p,
                demo_type = dd_type p, demo_content = dd_content p,
                demo_thumbnail = dd_thumbnail p, demo_url = dd_url p, demo_isPublic = b,
                demo_views = 0, demo_userId = userId au, demo_createdAt = db_now e\<rparr>"
  have "post_demos e w req =
      (respond 201 (demo_json (db_new_id e, ?row)), w\<lparr>demos := demos w @ [(db_new_id e, ?row)]\<rparr>)"
    using auth valid a
    by (simp add: post_demos_def demo_create_ok [OF _ valid _ _ pv] Let_def)
  then show "\<exists>row. post_demos e w req =
                     (respond 201 (demo_json (db_new_id e, row)),
                      w\<lparr>demos := demos w @ [(db_new_id e, row)]\<rparr>)
                 \<and> demo_isPublic row = b"
    by (intro exI [of _ ?row]) simp
next
  assume a: "isPublic_default e = None \<and> db_faults w = []"
  then show "post_demos e w req = (respond 500 (message ''Internal server error''), w)"
    using auth valid omitted
    by (simp add: post_demos_def demo_create_no_default [OF _ valid omitted])
qed

theorem post_demos_ignores_schema_default_witness:
  "user (request_of ''u1'' [] payload0) = Some \<lparr>userId = ''u1''\<rparr>
   \<and> demoSchema (req_body (request_of ''u1'' [] payload0)) = Some parsed0
   \<and> body_field (req_body (request_of ''u1'' [] payload0)) ''isPublic'' = None
   \<and> dd_isPublic parsed0 = False
   \<and> isPublic_default env0 = Some True
   \<and> db_faults world0 = []
   \<and> map_of (users world0) ''u1'' = Some ann
   \<and> map_of (demos world0) (db_new_id env0) = None
   \<and> (\<exists>row. post_demos env0 world0 (request_of ''u1'' [] payload0) =
               (respond 201 (demo_json (''d2'', row)),
                world0\<lparr>demos := [(''d1'', demo1), (''d2'', row)]\<rparr>)
          \<and> demo_isPublic row = True)
   \<and> isPublic_default (env0\<lparr>isPublic_default := None\<rparr>) = None
   \<and> post_demos (env0\<lparr>isPublic_default := None\<rparr>) world0 (request_of ''u1'' [] payload0) =
       (respond 500 (message ''Internal server error''), world0)"
proof -
  let ?r = "request_of ''u1'' [] payload0"
  have h: "user ?r = Some \<lparr>userId = ''u1''\<rparr>"
    "demoSchema (req_body ?r) = Some parsed0"
    "body_field (req_body ?r) ''isPublic'' = None"
    by (simp_all add: request_of_def demoSchema_payload0 payload0_optional)
  have g: "isPublic_default env0 = Some True" "db_faults world0 = []"
    "map_of (users world0) ''u1'' = Some ann" "map_of (demos world0) (db_new_id env0) = None"
    "isPublic_default (env0\<lparr>isPublic_default := None\<rparr>) = None"
    by (simp_all add: users_example fresh_example) (simp_all add: env0_def world0_def)
  have 1: "\<exists>row. post_demos env0 world0 ?r =
               (respond 201 (demo_json (''d2'', row)),
                world0\<lparr>demos := [(''d1'', demo1), (''d2'', row)]\<rparr>)
          \<and> demo_isPublic row = True"
    using post_demos_ignores_schema_default [OF h, of env0 world0] g
    by auto (auto simp: world0_def env0_def)
  have 2: "post_demos (env0\<lparr>isPublic_default := None\<rparr>) world0 ?r =
       (respond 500 (message ''Internal server error''), world0)"
    using post_demos_ignores_schema_default [OF h, of "env0\<lparr>isPublic_default := None\<rparr>" world0] g
    by simp
  have 3: "dd_isPublic parsed0 = False"
    by (simp add: parsed0_def)
  from h g 1 2 3 show ?thesis by blast
qed

subsection \<open>Error bodies\<close>

lemma message_only_message: "message_only (message m)"
  by (simp add: message_only_def message_def)

lemma message_only_iff: "message_only b = (\<exists>m. b = message m)"
proof (cases b)
  case (JObj kvs)
  show ?thesis
  proof (cases kvs)
    case Nil
    with JObj show ?thesis by (simp add: message_only_def message_def)
  next
    case (Cons kv rest)
    obtain k v where kv: "kv = (k, v)" by (cases kv)
    show ?thesis
      using JObj Cons kv
      by (cases v; cases rest) (auto simp: message_only_def message_def)
  qed
qed (simp_all add: message_only_def message_def)

lemma message_only_has_message: "message_only b \<Longrightarrow> has_message b"
  by (auto simp: message_only_iff has_message_def body_field_def message_def)

lemma error_respond: "error_response (respond st b) = (400 \<le> st)"
  by (simp add: error_response_def respond_def)

lemma body_respond: "body (respond st b) = b"
  by (simp add: respond_def)

lemma signup_errors:
  "error_response (fst (post_auth_signup e w req)) \<Longrightarrow>
   message_only (body (fst (post_auth_signup e w req)))"
  by (auto simp: post_auth_signup_def error_respond body_respond message_only_message Let_def
           split: option.splits prod.splits sum.splits if_splits)

lemma login_error_shape:
  "error_response (fst (post_auth_login e w req)) \<Longrightarrow>
   has_message (body (fst (post_auth_login e w req)))
   \<and> (message_only (body (fst (post_auth_login e w req)))
      \<or> status (fst (post_auth_login e w req)) = 500
        \<and> (\<exists>d. d \<noteq> []
              \<and> body (fst (post_auth_login e w req)) =
                  JObj [(''message'', JStr ''Internal server error''), (''details'', JStr d)]))"
  by (auto simp: post_auth_login_def error_respond body_respond message_only_message
        message_only_has_message
           split: option.splits prod.splits sum.splits if_splits)
     (auto simp: respond_def has_message_def body_field_def)


lemma me_errors:
  "error_response (fst (get_auth_me e w req)) \<Longrightarrow>
   message_only (body (fst (get_auth_me e w req)))"
  by (auto simp: get_auth_me_def error_respond body_respond message_only_message
           split: option.splits prod.splits sum.splits if_splits)

lemma post_demos_errors:
  "error_response (fst (post_demos e w req)) \<Longrightarrow>
   message_only (body (fst (post_demos e w req)))"
  by (auto simp: post_demos_def error_respond body_respond message_only_message
           split: option.splits prod.splits sum.splits if_splits)

lemma get_demos_errors:
  "error_response (fst (get_demos e w req)) \<Longrightarrow>
   message_only (body (fst (get_demos e w req)))"
  by (auto simp: get_demos_def error_respond body_respond message_only_message
           split: option.splits prod.splits sum.splits if_splits)

lemma get_demo_errors:
  "error_response (fst (get_demo e w req)) \<Longrightarrow>
   message_only (body (fst (get_demo e w req)))"
  by (auto simp: get_demo_def error_respond body_respond message_only_message
           split: option.splits prod.splits sum.splits if_splits)

lemma put_demo_errors:
  "error_response (fst (put_demo e w req)) \<Longrightarrow>
   message_only (body (fst (put_demo e w req)))"
  by (auto simp: put_demo_def error_respond body_respond message_only_message
           split: option.splits prod.splits sum.splits if_splits)

lemma delete_demo_errors:
  "error_response (fst (delete_demo e w req)) \<Longrightarrow>
   message_only (body (fst (delete_demo e w req)))"
  by (auto simp: delete_demo_def error_respond body_respond message_only_message
           split: option.splits prod.splits sum.splits if_splits)

lemma upload_try_returns: "\<exists>res w1. upload_try e w req = (Inr res, w1)"
  by (auto simp: upload_try_def Let_def split: option.splits prod.splits sum.splits)

lemma upload_error_shape:
  "error_response (fst (post_upload_image e w req)) \<Longrightarrow>
   has_message (body (fst (post_upload_image e w req)))
   \<and> (message_only (body (fst (post_upload_image e w req)))
      \<or> status (fst (post_upload_image e w req)) = 500
        \<and> (\<exists>m. body (fst (post_upload_image e w req)) =
                  JObj [(''message'', JStr ''Upload to R2 failed''), (''error'', JStr m),
                        (''details'',
                         JObj ((''bucket'', JStr (R2_BUCKET_NAME e)) #
                               (case process_env e ''CLOUDFLARE_R2_ENDPOINT'' of
                                  None \<Rightarrow> []
                                | Some ep \<Rightarrow> [(''endpoint'', JStr ep)])))]))"
  by (auto simp: post_upload_image_def upload_try_def error_respond body_respond
        message_only_message message_only_has_message Let_def
           split: option.splits prod.splits sum.splits if_splits)
     (auto simp: respond_def has_message_def body_field_def)


lemma middleware_errors:
  "authenticateToken e req = Inl res \<Longrightarrow> message_only (body res)"
  by (auto simp: authenticateToken_def body_respond message_only_message
           split: option.splits sum.splits if_splits)

lemma protected_errors:
  assumes "\<And>req'. error_response (fst (h e w req')) \<Longrightarrow> P (fst (h e w req'))"
    and "\<And>res. message_only (body res) \<Longrightarrow> P res"
    and "error_response (fst (protected h e w req))"
  shows "P (fst (protected h e w req))"
proof (cases "authenticateToken e req")
  case (Inl res)
  then show ?thesis
    using assms(2) middleware_errors [OF Inl] by (simp add: protected_def)
next
  case (Inr req')
  then show ?thesis
    using assms(1) [of req'] assms(3) by (simp add: protected_def)
qed

lemma protected_bearer:
  assumes "authorization req = Some (''Bearer '' @ t)"
    and "takeWhile (\<lambda>x. x \<noteq> CHR '' '') t = t" and "t \<noteq> []" and "jwt_verify e t = Inr u"
  shows "protected h e w req = h e w (req\<lparr>user := Some \<lparr>userId = userId u\<rparr>\<rparr>)"
proof -
  have "authenticateToken e req = Inr (req\<lparr>user := Some \<lparr>userId = userId u\<rparr>\<rparr>)"
    using authenticateToken_Bearer [OF assms(1), of e] assms(3,4)
    unfolding assms(2) by simp
  then show ?thesis
    by (simp add: protected_def)
qed

lemma signed_in_example:
  "protected h env0 w (with_header ''Bearer jwt:u1'') =
     h env0 w ((with_header ''Bearer jwt:u1'')\<lparr>user := Some \<lparr>userId = ''u1''\<rparr>\<rparr>)"
  "protected h env0 w ((with_header ''Bearer jwt:u1'')\<lparr>req_file := f\<rparr>) =
     h env0 w ((with_header ''Bearer jwt:u1'')\<lparr>req_file := f, user := Some \<lparr>userId = ''u1''\<rparr>\<rparr>)"
  "protected h env0 w (with_header ''Bearer jwt:u2'') =
     h env0 w ((with_header ''Bearer jwt:u2'')\<lparr>user := Some \<lparr>userId = ''u2''\<rparr>\<rparr>)"
  "protected h env0 w (with_header ''Bearer jwt:u9'') =
     h env0 w ((with_header ''Bearer jwt:u9'')\<lparr>user := Some \<lparr>userId = ''u9''\<rparr>\<rparr>)"
  using protected_bearer [of "with_header ''Bearer jwt:u1''" "''jwt:u1''" env0 "\<lparr>userId = ''u1''\<rparr>" h w]
    protected_bearer [of "(with_header ''Bearer jwt:u1'')\<lparr>req_file := f\<rparr>" "''jwt:u1''" env0
      "\<lparr>userId = ''u1''\<rparr>" h w]
    protected_bearer [of "with_header ''Bearer jwt:u2''" "''jwt:u2''" env0 "\<lparr>userId = ''u2''\<rparr>" h w]
    protected_bearer [of "with_header ''Bearer jwt:u9''" "''jwt:u9''" env0 "\<lparr>userId = ''u9''\<rparr>" h w]
  by (simp_all add: with_header_def env0_def)


text \<open>
  C5, as the code has it. Every error response of every route, whether the middleware or
  the handler sends it, has a JSON object with a string \<open>message\<close> as body. The body is
  \<open>{message}\<close> alone except in two branches. The 500 of login has the two members
  \<open>message\<close>, "Internal server error", and \<open>details\<close>, a string that is not empty. The
  500 of the image upload whose storage call has thrown has the three members \<open>message\<close>,
  "Upload to R2 failed", \<open>error\<close>, a string, and \<open>details\<close>, the object of the bucket name
  and, where the variable is set, the endpoint. The outer \<open>catch\<close> of the image upload
  would send \<open>message\<close> and \<open>error\<close>, but its \<open>try\<close> block always returns a response: the
  only call that throws there is the storage call, and the inner \<open>catch\<close> answers it.
\<close>

theorem error_bodies:
  "(error_response (fst (post_auth_signup e w req)) \<longrightarrow>
      message_only (body (fst (post_auth_signup e w req))))
   \<and> (error_response (fst (post_auth_login e w req)) \<longrightarrow>
      has_message (body (fst (post_auth_login e w req)))
      \<and> (message_only (body (fst (post_auth_login e w req)))
         \<or> status (fst (post_auth_login e w req)) = 500
           \<and> (\<exists>d. d \<noteq> []
                 \<and> body (fst (post_auth_login e w req)) =
                     JObj [(''message'', JStr ''Internal server error''), (''details'', JStr d)])))
   \<and> (error_response (fst (protected get_auth_me e w req)) \<longrightarrow>
      message_only (body (fst (protected get_auth_me e w req))))
   \<and> (error_response (fst (protected post_demos e w req)) \<longrightarrow>
      message_only (body (fst (protected post_demos e w req))))
   \<and> (error_response (fst (protected get_demos e w req)) \<longrightarrow>
      message_only (body (fst (protected get_demos e w req))))
   \<and> (error_response (fst (protected get_demo e w req)) \<longrightarrow>
      message_only (body (fst (protected get_demo e w req))))
   \<and> (error_response (fst (protected put_demo e w req)) \<longrightarrow>
      message_only (body (fst (protected put_demo e w req))))
   \<and> (error_response (fst (protected delete_demo e w req)) \<longrightarrow>
      message_only (body (fst (protected delete_demo e w req))))
   \<and> (error_response (fst (protected post_upload_image e w req)) \<longrightarrow>
      has_message (body (fst (protected post_upload_image e w req)))
      \<and> (message_only (body (fst (protected post_upload_image e w req)))
         \<or> status (fst (protected post_upload_image e w req)) = 500
           \<and> (\<exists>m. body (fst (protected post_upload_image e w req)) =
                     JObj [(''message'', JStr ''Upload to R2 failed''), (''error'', JStr m),
                           (''details'',
                            JObj ((''bucket'', JStr (R2_BUCKET_NAME e)) #
                                  (case process_env e ''CLOUDFLARE_R2_ENDPOINT'' of
                                     None \<Rightarrow> []
                                   | Some ep \<Rightarrow> [(''endpoint'', JStr ep)])))])))
   \<and> (\<exists>res w1. upload_try e w req = (Inr res, w1))"
proof (intro conjI impI)
  assume "error_response (fst (post_auth_signup e w req))"
  then show "message_only (body (fst (post_auth_signup e w req)))"
    by (rule signup_errors)
next
  assume a: "error_response (fst (post_auth_login e w req))"
  show "has_message (body (fst (post_auth_login e w req)))"
    using login_error_shape [OF a] by simp
  show "message_only (body (fst (post_auth_login e w req)))
        \<or> status (fst (post_auth_login e w req)) = 500
          \<and> (\<exists>d. d \<noteq> []
                \<and> body (fst (post_auth_login e w req)) =
                    JObj [(''message'', JStr ''Internal server error''), (''details'', JStr d)])"
    using login_error_shape [OF a] by simp
next
  assume "error_response (fst (protected get_auth_me e w req))"
  then show "message_only (body (fst (protected get_auth_me e w req)))"
    by (rule protected_errors [where P = "\<lambda>r. message_only (body r)", rotated 2])
       (simp_all add: me_errors)
next
  assume "error_response (fst (protected post_demos e w req))"
  then show "message_only (body (fst (protected post_demos e w req)))"
    by (rule protected_errors [where P = "\<lambda>r. message_only (body r)", rotated 2])
       (simp_all add: post_demos_errors)
next
  assume "error_response (fst (protected get_demos e w req))"
  then show "message_only (body (fst (protected get_demos e w req)))"
    by (rule protected_errors [where P = "\<lambda>r. message_only (body r)", rotated 2])
       (simp_all add: get_demos_errors)
next
  assume "error_response (fst (protected get_demo e w req))"
  then show "message_only (body (fst (protected get_demo e w req)))"
    by (rule protected_errors [where P = "\<lambda>r. message_only (body r)", rotated 2])
       (simp_all add: get_demo_errors)
next
  assume "error_response (fst (protected put_demo e w req))"
  then show "message_only (body (fst (protected put_demo e w req)))"
    by (rule protected_errors [where P = "\<lambda>r. message_only (body r)", rotated 2])
       (simp_all add: put_demo_errors)
next
  assume "error_response (fst (protected delete_demo e w req))"
  then show "message_only (body (fst (protected delete_demo e w req)))"
    by (rule protected_errors [where P = "\<lambda>r. message_only (body r)", rotated 2])
       (simp_all add: delete_demo_errors)
next
  let ?shape = "\<lambda>r. has_message (body r)
      \<and> (message_only (body r)
         \<or> status r = 500
           \<and> (\<exists>m. body r =
                     JObj [(''message'', JStr ''Upload to R2 failed''), (''error'', JStr m),
                           (''details'',
                            JObj ((''bucket'', JStr (R2_BUCKET_NAME e)) #
                                  (case process_env e ''CLOUDFLARE_R2_ENDPOINT'' of
                                     None \<Rightarrow> []
                                   | Some ep \<Rightarrow> [(''endpoint'', JStr ep)])))]))"
  assume a: "error_response (fst (protected post_upload_image e w req))"
  have "?shape (fst (protected post_upload_image e w req))"
    using a
    by (rule protected_errors [where P = ?shape, rotated 2])
       (simp_all add: upload_error_shape message_only_has_message)
  then show "has_message (body (fst (protected post_upload_image e w req)))"
    and "message_only (body (fst (protected post_upload_image e w req)))
         \<or> status (fst (protected post_upload_image e w req)) = 500
           \<and> (\<exists>m. body (fst (protected post_upload_image e w req)) =
                     JObj [(''message'', JStr ''Upload to R2 failed''), (''error'', JStr m),
                           (''details'',
                            JObj ((''bucket'', JStr (R2_BUCKET_NAME e)) #
                                  (case process_env e ''CLOUDFLARE_R2_ENDPOINT'' of
                                     None \<Rightarrow> []
                                   | Some ep \<Rightarrow> [(''endpoint'', JStr ep)])))])"
    by simp_all
next
  show "\<exists>res w1. upload_try e w req = (Inr res, w1)"
    by (rule upload_try_returns)
qed


text \<open>
  The theorem on requests that reach each handler and fail there: an invalid signup, a
  login with the database down and one with a wrong password, a token of a user without
  row, invalid payloads, the demo of another user, a listing with the database down, an
  upload without file and one whose storage call throws.
\<close>

theorem error_bodies_witness:
  "fst (post_auth_signup env0 world0 (anonymous (JObj []))) =
     respond 411 (message ''Invalid input data'')
   \<and> message_only (body (fst (post_auth_signup env0 world0 (anonymous (JObj [])))))
   \<and> status (fst (post_auth_login env0 (world0\<lparr>db_faults := [Some ''down'']\<rparr>)
               (anonymous (credentials ''a@x.com'' ''p'')))) = 500
   \<and> has_message (body (fst (post_auth_login env0 (world0\<lparr>db_faults := [Some ''down'']\<rparr>)
               (anonymous (credentials ''a@x.com'' ''p'')))))
   \<and> (\<exists>d. d \<noteq> []
         \<and> body (fst (post_auth_login env0 (world0\<lparr>db_faults := [Some ''down'']\<rparr>)
               (anonymous (credentials ''a@x.com'' ''p'')))) =
             JObj [(''message'', JStr ''Internal server error''), (''details'', JStr d)])
   \<and> fst (post_auth_login env0 world0 (anonymous (credentials ''a@x.com'' ''wrong''))) =
       respond 401 (message ''Invalid email or password'')
   \<and> message_only (body (fst (post_auth_login env0 world0
                              (anonymous (credentials ''a@x.com'' ''wrong'')))))
   \<and> fst (protected get_auth_me env0 world0 (with_header ''Bearer jwt:u9'')) =
       respond 404 (message ''User not found'')
   \<and> message_only (body (fst (protected get_auth_me env0 world0 (with_header ''Bearer jwt:u9''))))
   \<and> fst (protected post_demos env0 world0 (with_header ''Bearer jwt:u1'')) =
       respond 400 (message ''Invalid demo data'')
   \<and> message_only (body (fst (protected post_demos env0 world0 (with_header ''Bearer jwt:u1''))))
   \<and> fst (protected get_demos env0 (world0\<lparr>db_faults := [Some ''down'']\<rparr>)
            (with_header ''Bearer jwt:u1'')) =
       respond 500 (message ''Internal server error'')
   \<and> message_only (body (fst (protected get_demos env0 (world0\<lparr>db_faults := [Some ''down'']\<rparr>)
                              (with_header ''Bearer jwt:u1''))))
   \<and> fst (protected get_demo env0 world0 (with_header ''Bearer jwt:u2'')) =
       respond 404 (message ''Demo not found'')
   \<and> message_only (body (fst (protected get_demo env0 world0 (with_header ''Bearer jwt:u2''))))
   \<and> fst (protected put_demo env0 world0 (with_header ''Bearer jwt:u2'')) =
       respond 400 (message ''Invalid demo data'')
   \<and> message_only (body (fst (protected put_demo env0 world0 (with_header ''Bearer jwt:u2''))))
   \<and> fst (protected delete_demo env0 world0 (with_header ''Bearer jwt:u2'')) =
       respond 404 (message ''Demo not found'')
   \<and> message_only (body (fst (protected delete_demo env0 world0 (with_header ''Bearer jwt:u2''))))
   \<and> fst (protected post_upload_image env0 world0 (with_header ''Bearer jwt:u1'')) =
       respond 400 (message ''No image file provided'')
   \<and> message_only (body (fst (protected post_upload_image env0 world0
                              (with_header ''Bearer jwt:u1''))))
   \<and> status (fst (protected post_upload_image env0 (world0\<lparr>r2_faults := [Some ''timeout'']\<rparr>)
               ((with_header ''Bearer jwt:u1'')\<lparr>req_file := Some png\<rparr>))) = 500
   \<and> has_message (body (fst (protected post_upload_image env0
               (world0\<lparr>r2_faults := [Some ''timeout'']\<rparr>)
               ((with_header ''Bearer jwt:u1'')\<lparr>req_file := Some png\<rparr>))))
   \<and> (\<exists>m. body (fst (protected post_upload_image env0 (world0\<lparr>r2_faults := [Some ''timeout'']\<rparr>)
               ((with_header ''Bearer jwt:u1'')\<lparr>req_file := Some png\<rparr>))) =
             JObj [(''message'', JStr ''Upload to R2 failed''), (''error'', JStr m),
                   (''details'', JObj [(''bucket'', JStr ''arcade'')])])"
proof -
  let ?down = "world0\<lparr>db_faults := [Some ''down'']\<rparr>"
  let ?stuck = "world0\<lparr>r2_faults := [Some ''timeout'']\<rparr>"
  let ?u1 = "with_header ''Bearer jwt:u1''"
  let ?u2 = "with_header ''Bearer jwt:u2''"
  let ?u9 = "with_header ''Bearer jwt:u9''"
  let ?up = "(with_header ''Bearer jwt:u1'')\<lparr>req_file := Some png\<rparr>"
  have s: "fst (post_auth_signup env0 world0 (anonymous (JObj []))) =
      respond 411 (message ''Invalid input data'')"
    by (simp add: post_auth_signup_def signupSchema_def anonymous_def is_object_def
          body_field_def zod_string_def)
  have l5: "fst (post_auth_login env0 ?down (anonymous (credentials ''a@x.com'' ''p''))) =
      respond 500 (JObj [(''message'', JStr ''Internal server error''), (''details'', JStr ''down'')])"
    by (simp add: post_auth_login_def anonymous_def signin_example user_findUnique_email_def
          db_call_def world0_def)
  have l4: "fst (post_auth_login env0 world0 (anonymous (credentials ''a@x.com'' ''wrong''))) =
      respond 401 (message ''Invalid email or password'')"
    by (simp add: post_auth_login_def anonymous_def signin_example user_findUnique_email_def
          db_call_def world0_def ann_def)
  have me: "fst (protected get_auth_me env0 world0 ?u9) = respond 404 (message ''User not found'')"
    unfolding signed_in_example
    by (simp add: get_auth_me_def user_findUnique_id_def db_call_def
          world0_def with_header_def)
  have pd: "fst (protected post_demos env0 world0 ?u1) = respond 400 (message ''Invalid demo data'')"
    unfolding signed_in_example
    by (simp add: post_demos_def demoSchema_def is_object_def body_field_def
          zod_string_def with_header_def)
  have gd: "fst (protected get_demos env0 ?down ?u1) = respond 500 (message ''Internal server error'')"
    unfolding signed_in_example
    by (simp add: get_demos_def demo_findMany_def db_call_def world0_def
          with_header_def)
  have g1: "fst (protected get_demo env0 world0 ?u2) = respond 404 (message ''Demo not found'')"
    unfolding signed_in_example
    by (simp add: get_demo_def demo_findFirst_def db_call_def world0_def
          demo1_def with_header_def)
  have pu: "fst (protected put_demo env0 world0 ?u2) = respond 400 (message ''Invalid demo data'')"
    unfolding signed_in_example
    by (simp add: put_demo_def demoSchema_def is_object_def body_field_def
          zod_string_def with_header_def)
  have de: "fst (protected delete_demo env0 world0 ?u2) = respond 404 (message ''Demo not found'')"
    unfolding signed_in_example
    by (simp add: delete_demo_def demo_findFirst_def db_call_def world0_def
          demo1_def with_header_def)
  have u4: "fst (protected post_upload_image env0 world0 ?u1) =
      respond 400 (message ''No image file provided'')"
    unfolding signed_in_example
    by (simp add: post_upload_image_def upload_try_def with_header_def)
  have u5: "fst (protected post_upload_image env0 ?stuck ?up) =
      respond 500 (JObj [(''message'', JStr ''Upload to R2 failed''), (''error'', JStr ''timeout''),
                         (''details'', JObj [(''bucket'', JStr ''arcade'')])])"
    unfolding signed_in_example
    by (simp add: post_upload_image_def upload_try_def bucket_example
          r2_send_def r2_call_def world0_def with_header_def Let_def)
       (simp add: env0_def)
  have ms: "message_only (body (fst (post_auth_signup env0 world0 (anonymous (JObj [])))))"
    using error_bodies [of env0 world0 "anonymous (JObj [])"] by (simp add: s error_respond)
  have hl5: "has_message (body (fst (post_auth_login env0 ?down
                 (anonymous (credentials ''a@x.com'' ''p'')))))"
    using error_bodies [of env0 ?down "anonymous (credentials ''a@x.com'' ''p'')"]
    by (simp add: l5 error_respond)
  have ml4: "message_only (body (fst (post_auth_login env0 world0
                 (anonymous (credentials ''a@x.com'' ''wrong'')))))"
    using error_bodies [of env0 world0 "anonymous (credentials ''a@x.com'' ''wrong'')"]
    by (simp add: l4 error_respond) (simp add: respond_def)
  have mme: "message_only (body (fst (protected get_auth_me env0 world0 ?u9)))"
    using error_bodies [of env0 world0 ?u9] by (simp add: me error_respond)
  have mpd: "message_only (body (fst (protected post_demos env0 world0 ?u1)))"
    using error_bodies [of env0 world0 ?u1] by (simp add: pd error_respond)
  have mgd: "message_only (body (fst (protected get_demos env0 ?down ?u1)))"
    using error_bodies [of env0 ?down ?u1] by (simp add: gd error_respond)
  have mg1: "message_only (body (fst (protected get_demo env0 world0 ?u2)))"
    using error_bodies [of env0 world0 ?u2] by (simp add: g1 error_respond)
  have mpu: "message_only (body (fst (protected put_demo env0 world0 ?u2)))"
    using error_bodies [of env0 world0 ?u2] by (simp add: pu error_respond)
  have mde: "message_only (body (fst (protected delete_demo env0 world0 ?u2)))"
    using error_bodies [of env0 world0 ?u2] by (simp add: de error_respond)
  have mu4: "message_only (body (fst (protected post_upload_image env0 world0 ?u1)))"
    using error_bodies [of env0 world0 ?u1] by (simp add: u4 error_respond) (simp add: respond_def)
  have hu5: "has_message (body (fst (protected post_upload_image env0 ?stuck ?up)))"
    using error_bodies [of env0 ?stuck ?up] by (simp add: u5 error_respond)
  show ?thesis
    using s ms hl5 l4 ml4 me mme pd mpd gd mgd g1 mg1 pu mpu de mde u4 mu4 hu5
    by (simp add: l5 u5 respond_def)
qed

text \<open>
  C5 as stated fails in the two branches it names. When the database is down, a login with
  a well-formed body is answered 500 with the members \<open>message\<close> and \<open>details\<close>; when the
  storage call throws, the upload is answered 500 with \<open>message\<close>, \<open>error\<close> and \<open>details\<close>.
\<close>

theorem login_upload_extra_members:
  "fst (post_auth_login env0 (world0\<lparr>db_faults := [Some ''down'']\<rparr>)
          (anonymous (credentials ''a@x.com'' ''p''))) =
     respond 500 (JObj [(''message'', JStr ''Internal server error''), (''details'', JStr ''down'')])
   \<and> error_response (fst (post_auth_login env0 (world0\<lparr>db_faults := [Some ''down'']\<rparr>)
          (anonymous (credentials ''a@x.com'' ''p''))))
   \<and> \<not> message_only (body (fst (post_auth_login env0 (world0\<lparr>db_faults := [Some ''down'']\<rparr>)
          (anonymous (credentials ''a@x.com'' ''p'')))))
   \<and> fst (post_upload_image env0 (world0\<lparr>r2_faults := [Some ''timeout'']\<rparr>)
          (upload_of ''u1'' (Some png))) =
     respond 500 (JObj [(''message'', JStr ''Upload to R2 failed''), (''error'', JStr ''timeout''),
                        (''details'', JObj [(''bucket'', JStr ''arcade'')])])
   \<and> error_response (fst (post_upload_image env0 (world0\<lparr>r2_faults := [Some ''timeout'']\<rparr>)
          (upload_of ''u1'' (Some png))))
   \<and> \<not> message_only (body (fst (post_upload_image env0 (world0\<lparr>r2_faults := [Some ''timeout'']\<rparr>)
          (upload_of ''u1'' (Some png)))))"
proof -
  have l: "fst (post_auth_login env0 (world0\<lparr>db_faults := [Some ''down'']\<rparr>)
          (anonymous (credentials ''a@x.com'' ''p''))) =
     respond 500 (JObj [(''message'', JStr ''Internal server error''), (''details'', JStr ''down'')])"
    by (simp add: post_auth_login_def anonymous_def signin_example user_findUnique_email_def
          db_call_def world0_def)
  have u: "fst (post_upload_image env0 (world0\<lparr>r2_faults := [Some ''timeout'']\<rparr>)
          (upload_of ''u1'' (Some png))) =
     respond 500 (JObj [(''message'', JStr ''Upload to R2 failed''), (''error'', JStr ''timeout''),
                        (''details'', JObj [(''bucket'', JStr ''arcade'')])])"
    by (simp add: post_upload_image_def upload_try_def upload_of_def bucket_example r2_send_def r2_call_def
          world0_def Let_def)
       (simp add: env0_def)
  show ?thesis
    unfolding l u by (simp add: error_respond body_respond message_only_iff message_def)
qed

end
